theory Spec2Isabelle
  imports Complex_Main "HOL-Library.Sublist"
begin

section \<open>Data model\<close>

text \<open>
  Instants are Python \<^verbatim>\<open>datetime\<close> values, read here as a count of microseconds;
  \<^verbatim>\<open>timedelta(seconds=n)\<close> is \<open>n * 1000000\<close> of them. A nullable column is an
  \<open>option\<close>. The primary keys \<^verbatim>\<open>id\<close> of the three tables are the fields \<open>eid\<close>
  (StrategyExecution), \<open>sid\<close> (Strategy) and \<open>aid\<close> (TradingAccount).
\<close>

type_synonym datetime = int

definition timedelta_seconds :: "int \<Rightarrow> int" where
  "timedelta_seconds n = n * 1000000"

definition EXIT_RETRY_DELAY_SECONDS :: int where
  "EXIT_RETRY_DELAY_SECONDS = 10"

definition MAX_EXIT_ATTEMPTS :: int where
  "MAX_EXIT_ATTEMPTS = 5"

record strategy_leg =
  action :: string

record trading_account =
  aid :: nat
  account_name :: string
  is_active :: bool

record execution =
  eid :: nat
  strategy_id :: nat
  leg :: "strategy_leg option"
  account :: "trading_account option"
  symbol :: "string option"
  exchange :: "string option"
  quantity :: int
  product :: "string option"
  status :: string
  exit_order_id :: "string option"
  exit_reason :: "string option"
  exit_pending_since :: "datetime option"
  exit_attempt_count :: "int option"
  exit_retry_after :: "datetime option"
  exit_broker_verified :: bool
  broker_order_status :: "string option"
  exit_time :: "datetime option"
  error_message :: "string option"

text \<open>Python truthiness of a nullable string: \<^verbatim>\<open>None\<close> and \<^verbatim>\<open>''\<close> are false.\<close>

fun truthy :: "string option \<Rightarrow> bool" where
  "truthy None = False"
| "truthy (Some s) = (s \<noteq> [])"

text \<open>\<^verbatim>\<open>func.coalesce(col, 0)\<close> and Python's \<^verbatim>\<open>col or 0\<close> on a nullable integer.\<close>

fun coalesce0 :: "int option \<Rightarrow> int" where
  "coalesce0 None = 0"
| "coalesce0 (Some n) = n"

section \<open>The position store: one conditional UPDATE\<close>

text \<open>
  The table is the list of its rows. \<^verbatim>\<open>sa_update(...).where(...).values(...)\<close> rewrites
  every row that satisfies the WHERE clause and reports how many there were
  (\<^verbatim>\<open>result.rowcount\<close>). A comparison with a NULL column is not true in SQL, so a row
  with a NULL \<^verbatim>\<open>exit_retry_after\<close> or \<^verbatim>\<open>exit_attempt_count\<close> never matches
  \<open>sql_le\<close> or \<open>sql_less\<close>.
\<close>

definition sa_update ::
  "(execution \<Rightarrow> bool) \<Rightarrow> (execution \<Rightarrow> execution) \<Rightarrow> execution list \<Rightarrow> execution list \<times> nat" where
  "sa_update wh vals rows =
     (map (\<lambda>r. if wh r then vals r else r) rows, length (filter wh rows))"

fun sql_le :: "int option \<Rightarrow> int \<Rightarrow> bool" where
  "sql_le None b = False"
| "sql_le (Some a) b = (a \<le> b)"

fun sql_less :: "int option \<Rightarrow> int \<Rightarrow> bool" where
  "sql_less None b = False"
| "sql_less (Some a) b = (a < b)"

definition query_get :: "execution list \<Rightarrow> nat \<Rightarrow> execution option" where
  "query_get rows i = find (\<lambda>r. eid r = i) rows"

section \<open>Exit Claim Controller (exit\_order\_manager.py)\<close>

text \<open>
  \<open>atomic_claim_exit\<close> and \<open>atomic_claim_exit_retry\<close> run inside \<^verbatim>\<open>try\<close>: when the
  store raises (the flag \<open>db_raises\<close>), the session is rolled back, the table is as it
  was and the call returns \<^verbatim>\<open>False\<close>. \<open>now\<close> is the value of \<^verbatim>\<open>datetime.utcnow()\<close>.
\<close>

definition claim_where :: "nat \<Rightarrow> execution \<Rightarrow> bool" where
  "claim_where execution_id r \<longleftrightarrow>
     eid r = execution_id \<and> status r = ''entered'' \<and> exit_order_id r = None"

definition claim_values :: "datetime \<Rightarrow> string \<Rightarrow> execution \<Rightarrow> execution" where
  "claim_values now reason r =
     r\<lparr>status := ''exit_pending'',
       exit_reason := Some reason,
       exit_pending_since := Some now,
       exit_attempt_count := Some (coalesce0 (exit_attempt_count r) + 1),
       exit_retry_after := Some (now + timedelta_seconds EXIT_RETRY_DELAY_SECONDS)\<rparr>"

definition atomic_claim_exit ::
  "bool \<Rightarrow> datetime \<Rightarrow> execution list \<Rightarrow> nat \<Rightarrow> string \<Rightarrow> bool \<times> execution list" where
  "atomic_claim_exit db_raises now rows execution_id reason =
     (if db_raises then (False, rows)
      else case sa_update (claim_where execution_id) (claim_values now reason) rows of
             (rows', rowcount) \<Rightarrow> (rowcount > 0, rows'))"

definition retry_where :: "datetime \<Rightarrow> nat \<Rightarrow> execution \<Rightarrow> bool" where
  "retry_where now execution_id r \<longleftrightarrow>
     eid r = execution_id \<and> status r = ''exit_pending'' \<and> exit_order_id r = None
     \<and> sql_le (exit_retry_after r) now
     \<and> sql_less (exit_attempt_count r) MAX_EXIT_ATTEMPTS"

definition retry_values :: "datetime \<Rightarrow> string \<Rightarrow> execution \<Rightarrow> execution" where
  "retry_values now reason r =
     r\<lparr>exit_attempt_count := Some (coalesce0 (exit_attempt_count r) + 1),
       exit_retry_after := Some (now + timedelta_seconds EXIT_RETRY_DELAY_SECONDS),
       exit_reason := Some reason\<rparr>"

definition atomic_claim_exit_retry ::
  "bool \<Rightarrow> datetime \<Rightarrow> execution list \<Rightarrow> nat \<Rightarrow> string \<Rightarrow> bool \<times> execution list" where
  "atomic_claim_exit_retry db_raises now rows execution_id reason =
     (if db_raises then (False, rows)
      else case sa_update (retry_where now execution_id) (retry_values now reason) rows of
             (rows', rowcount) \<Rightarrow> (rowcount > 0, rows'))"

text \<open>
  The \<^verbatim>\<open>mark_exit_*\<close> functions mutate the ORM object they are given and commit; the
  model returns the mutated object.
\<close>

definition mark_exit_pending :: "datetime \<Rightarrow> execution \<Rightarrow> string \<Rightarrow> bool \<Rightarrow> execution" where
  "mark_exit_pending now e reason increment_attempt =
     (let e1 = e\<lparr>status := ''exit_pending'', exit_reason := Some reason\<rparr>;
          e2 = (if exit_pending_since e1 = None then e1\<lparr>exit_pending_since := Some now\<rparr> else e1);
          e3 = (if increment_attempt
                then e2\<lparr>exit_attempt_count := Some (coalesce0 (exit_attempt_count e2) + 1)\<rparr>
                else e2)
      in e3\<lparr>exit_retry_after := Some (now + timedelta_seconds EXIT_RETRY_DELAY_SECONDS)\<rparr>)"

definition mark_exit_success :: "datetime \<Rightarrow> execution \<Rightarrow> string option \<Rightarrow> execution" where
  "mark_exit_success now e order_id =
     e\<lparr>exit_order_id := order_id,
       broker_order_status := Some ''open'',
       exit_time := Some now,
       exit_broker_verified := False\<rparr>"

definition mark_exit_failed :: "datetime \<Rightarrow> execution \<Rightarrow> string option \<Rightarrow> bool \<Rightarrow> execution" where
  "mark_exit_failed now e err needs_broker_verification =
     e\<lparr>status := ''exit_pending'',
       error_message := (if truthy err then map_option (take 500) err else None),
       exit_retry_after := Some (now + timedelta_seconds EXIT_RETRY_DELAY_SECONDS),
       exit_broker_verified := \<not> needs_broker_verification\<rparr>"

definition mark_exit_confirmed :: "datetime \<Rightarrow> execution \<Rightarrow> string \<Rightarrow> string option \<Rightarrow> execution" where
  "mark_exit_confirmed now e broker_status order_id =
     (let e1 = e\<lparr>status := ''exited'', broker_order_status := Some broker_status\<rparr>;
          e2 = (if truthy order_id then e1\<lparr>exit_order_id := order_id\<rparr> else e1);
          e3 = (if exit_time e2 = None then e2\<lparr>exit_time := Some now\<rparr> else e2)
      in e3\<lparr>exit_broker_verified := True\<rparr>)"

section \<open>Strings\<close>

text \<open>
  \<^verbatim>\<open>str.upper()\<close> and \<^verbatim>\<open>str.lower()\<close> on ASCII letters, \<^verbatim>\<open>sub in s\<close>, and the decimal
  rendering of a non-negative integer in an f-string.
\<close>

definition upper_char :: "char \<Rightarrow> char" where
  "upper_char c =
     (case map_of (zip ''abcdefghijklmnopqrstuvwxyz'' ''ABCDEFGHIJKLMNOPQRSTUVWXYZ'') c of
        Some d \<Rightarrow> d | None \<Rightarrow> c)"

definition lower_char :: "char \<Rightarrow> char" where
  "lower_char c =
     (case map_of (zip ''ABCDEFGHIJKLMNOPQRSTUVWXYZ'' ''abcdefghijklmnopqrstuvwxyz'') c of
        Some d \<Rightarrow> d | None \<Rightarrow> c)"

definition str_upper :: "string \<Rightarrow> string" where
  "str_upper s = map upper_char s"

definition str_lower :: "string \<Rightarrow> string" where
  "str_lower s = map lower_char s"

fun contains :: "string \<Rightarrow> string \<Rightarrow> bool" where
  "contains sub [] = (sub = [])"
| "contains sub (c # cs) = (prefix sub (c # cs) \<or> contains sub cs)"

fun str_nat :: "nat \<Rightarrow> string" where
  "str_nat n =
     (if n < 10 then [''0123456789'' ! n]
      else str_nat (n div 10) @ [''0123456789'' ! (n mod 10)])"

fun str_opt :: "string option \<Rightarrow> string" where
  "str_opt None = ''None''"
| "str_opt (Some s) = s"

text \<open>\<^verbatim>\<open>a or d\<close> on a nullable string, and \<^verbatim>\<open>d.get(k1, d.get(k2, ''))\<close>.\<close>

fun or_else :: "string option \<Rightarrow> string \<Rightarrow> string" where
  "or_else None d = d"
| "or_else (Some s) d = (if s = [] then d else s)"

fun get2 :: "string option \<Rightarrow> string option \<Rightarrow> string" where
  "get2 (Some a) b = a"
| "get2 None (Some b) = b"
| "get2 None None = []"

section \<open>Broker calls\<close>

text \<open>
  A book query either raises or returns an envelope with a \<^verbatim>\<open>status\<close> and a \<^verbatim>\<open>data\<close>
  list; an absent key of an entry is \<open>None\<close>. A quantity is a value that \<^verbatim>\<open>int()\<close>
  accepts (\<open>Num\<close>) or one it raises on (\<open>NotNum\<close>). The order submission
  \<^verbatim>\<open>place_order_with_freeze_check\<close> is a function of the client: it raises, returns
  nothing usable (\<^verbatim>\<open>None\<close> or an empty envelope) or returns an envelope.
\<close>

datatype 'a response = Raises string | Response "string option" "'a list"

datatype json_num = Num int | NotNum

fun py_int :: "json_num option \<Rightarrow> int \<Rightarrow> string + int" where
  "py_int None d = Inr d"
| "py_int (Some (Num n)) d = Inr n"
| "py_int (Some NotNum) d = Inl ''invalid literal for int()''"

record pb_entry =
  pb_symbol :: "string option"
  pb_quantity :: "json_num option"

record ob_entry =
  ob_symbol :: "string option"
  ob_transaction_type :: "string option"
  ob_transactiontype :: "string option"
  ob_order_status :: "string option"
  ob_status :: "string option"
  ob_orderid :: "string option"
  ob_order_id :: "string option"

record tb_entry =
  tb_symbol :: "string option"
  tb_transaction_type :: "string option"
  tb_transactiontype :: "string option"
  tb_orderid :: "string option"
  tb_order_id :: "string option"
  tb_quantity :: "json_num option"
  tb_filled_quantity :: "json_num option"

record order_request =
  o_user_id :: nat
  o_strategy :: string
  o_symbol :: "string option"
  o_exchange :: "string option"
  o_action :: string
  o_quantity :: int
  o_price_type :: string
  o_product :: string

datatype order_reply =
    OrderRaises string
  | NoResponse
  | OrderResponse "string option" "string option" "string option"

record client =
  positionbook :: "pb_entry response"
  orderbook :: "ob_entry response"
  tradebook :: "tb_entry response"
  place_order_with_freeze_check :: "order_request \<Rightarrow> order_reply"

section \<open>Broker Verification (verify\_exit\_order\_at\_broker)\<close>

record verification =
  has_exit_order :: bool
  order_status :: "string option"
  order_id :: "string option"
  position_quantity :: int
  can_place_exit :: bool
  message :: string

text \<open>The \<^verbatim>\<open>except\<close> branch: it keeps what the \<^verbatim>\<open>result\<close> dict held when the exception came.\<close>

definition verification_error :: "verification \<Rightarrow> string \<Rightarrow> verification" where
  "verification_error result e =
     result\<lparr>message := ''Verification error: '' @ e, can_place_exit := False\<rparr>"

fun scan_positions :: "string option \<Rightarrow> pb_entry list \<Rightarrow> string + int option" where
  "scan_positions symb [] = Inr None"
| "scan_positions symb (pos # rest) =
     (if pb_symbol pos = symb
      then (case py_int (pb_quantity pos) 0 of
              Inl e \<Rightarrow> Inl e
            | Inr q \<Rightarrow> Inr (Some (abs q)))
      else scan_positions symb rest)"

definition found_order :: "verification \<Rightarrow> string \<Rightarrow> string \<Rightarrow> verification" where
  "found_order result ostatus oid =
     (let result1 = result\<lparr>has_exit_order := True, order_status := Some ostatus,
                            order_id := Some oid\<rparr>
      in if ostatus = ''complete''
         then result1\<lparr>message := ''Exit order '' @ oid @ '' already completed'',
                      can_place_exit := False\<rparr>
         else if ostatus \<in> set [''open'', ''pending'', ''trigger_pending'']
         then result1\<lparr>message := ''Exit order '' @ oid @ '' is '' @ ostatus,
                      can_place_exit := False\<rparr>
         else if ostatus \<in> set [''cancelled'', ''rejected'']
         then result1\<lparr>message := ''Previous exit order '' @ oid @ '' was '' @ ostatus,
                      can_place_exit := True\<rparr>
         else result1\<lparr>message := ''Exit order '' @ oid @ '' has status: '' @ ostatus,
                      can_place_exit := False\<rparr>)"

fun scan_orders ::
  "verification \<Rightarrow> string option \<Rightarrow> string \<Rightarrow> ob_entry list \<Rightarrow> verification option" where
  "scan_orders result symb exit_action [] = None"
| "scan_orders result symb exit_action (entry # rest) =
     (let order_symbol = get2 (ob_symbol entry) None;
          order_action = str_upper (get2 (ob_transaction_type entry) (ob_transactiontype entry));
          ostatus = str_lower (get2 (ob_order_status entry) (ob_status entry));
          oid = get2 (ob_orderid entry) (ob_order_id entry)
      in if Some order_symbol = symb \<and> order_action = exit_action
         then Some (found_order result ostatus oid)
         else scan_orders result symb exit_action rest)"

fun trade_quantity :: "tb_entry \<Rightarrow> string + int" where
  "trade_quantity trade =
     (case tb_quantity trade of
        Some v \<Rightarrow> py_int (Some v) 0
      | None \<Rightarrow> py_int (tb_filled_quantity trade) 0)"

fun scan_trades ::
  "verification \<Rightarrow> string option \<Rightarrow> string \<Rightarrow> int \<Rightarrow> tb_entry list
     \<Rightarrow> string + verification option" where
  "scan_trades result symb exit_action qty [] = Inr None"
| "scan_trades result symb exit_action qty (trade # rest) =
     (let trade_symbol = get2 (tb_symbol trade) None;
          trade_action = str_upper (get2 (tb_transaction_type trade) (tb_transactiontype trade));
          trade_id = get2 (tb_orderid trade) (tb_order_id trade)
      in if Some trade_symbol = symb \<and> trade_action = exit_action
         then (case trade_quantity trade of
                 Inl e \<Rightarrow> Inl e
               | Inr q \<Rightarrow>
                   if abs q \<ge> qty
                   then Inr (Some (result\<lparr>has_exit_order := True,
                           order_status := Some ''complete'', order_id := Some trade_id,
                           message := ''Exit trade '' @ trade_id @ '' found in tradebook'',
                           can_place_exit := False\<rparr>))
                   else scan_trades result symb exit_action qty rest)
         else scan_trades result symb exit_action qty rest)"

definition exit_action_of :: "execution \<Rightarrow> string" where
  "exit_action_of e =
     (let entry_action = (case leg e of Some l \<Rightarrow> str_upper (action l) | None \<Rightarrow> ''BUY'')
      in if entry_action = ''BUY'' then ''SELL'' else ''BUY'')"

definition verify_exit_order_at_broker :: "client \<Rightarrow> execution \<Rightarrow> verification" where
  "verify_exit_order_at_broker cl e =
     (let result = \<lparr>has_exit_order = False, order_status = None, order_id = None,
                     position_quantity = 0, can_place_exit = False, message = []\<rparr>;
          symb = symbol e
      in case positionbook cl of
           Raises err \<Rightarrow> verification_error result err
         | Response st positions \<Rightarrow>
            (case (if st = Some ''success'' then scan_positions symb positions else Inr None) of
               Inl err \<Rightarrow> verification_error result err
             | Inr found \<Rightarrow>
                (let result1 = (case found of
                                  Some q \<Rightarrow> result\<lparr>position_quantity := q\<rparr>
                                | None \<Rightarrow> result)
                 in if position_quantity result1 = 0
                    then result1\<lparr>has_exit_order := True, order_status := Some ''complete'',
                           message := ''Position already closed at broker (quantity=0)'',
                           can_place_exit := False\<rparr>
                    else
                     (case orderbook cl of
                        Raises err \<Rightarrow> verification_error result1 err
                      | Response st orders \<Rightarrow>
                         (case (if st = Some ''success''
                                then scan_orders result1 symb (exit_action_of e) orders
                                else None) of
                            Some r \<Rightarrow> r
                          | None \<Rightarrow>
                             (case tradebook cl of
                                Raises err \<Rightarrow> verification_error result1 err
                              | Response st trades \<Rightarrow>
                                 (case (if st = Some ''success''
                                        then scan_trades result1 symb (exit_action_of e)
                                               (quantity e) trades
                                        else Inr None) of
                                    Inl err \<Rightarrow> verification_error result1 err
                                  | Inr (Some r) \<Rightarrow> r
                                  | Inr None \<Rightarrow>
                                     result1\<lparr>can_place_exit := True,
                                       message := ''No exit order found for '' @ str_opt symb
                                         @ '', position quantity=''
                                         @ str_nat (nat (position_quantity result1))\<rparr>)))))))"

section \<open>Exit Execution Coordinator (trigger\_sequential\_exit)\<close>

record strategy =
  sid :: nat
  name :: string
  user_id :: nat
  strategy_is_active :: bool
  product_order_type :: "string option"
  supertrend_exit_enabled :: bool
  supertrend_exit_type :: "string option"
  supertrend_period :: int
  supertrend_timeframe :: "string option"
  supertrend_exit_triggered :: bool
  supertrend_exit_reason :: "string option"
  supertrend_exit_triggered_at :: "datetime option"

record poller_entry =
  p_execution_id :: nat
  p_account :: trading_account
  p_order_id :: "string option"
  p_strategy_name :: string

text \<open>
  What one invocation reads from outside: the clock (\<^verbatim>\<open>get_ist_now()\<close>, and the
  \<^verbatim>\<open>utcnow()\<close> of the claim and of the later \<^verbatim>\<open>mark_exit_*\<close> call), whether the
  store raises on the claim, and the broker client. All but the first are indexed
  by the id of the execution being processed, so that the answers may differ from
  one position to the next.
\<close>

record env =
  get_ist_now :: datetime
  claim_raises :: "nat \<Rightarrow> bool"
  claim_utcnow :: "nat \<Rightarrow> datetime"
  mark_utcnow :: "nat \<Rightarrow> datetime"
  client_for :: "nat \<Rightarrow> client"

text \<open>
  The two tables, the requests handed to \<^verbatim>\<open>place_order_with_freeze_check\<close> in the
  order of the calls, and the queue of the order-status poller.
\<close>

record world =
  strategies :: "strategy list"
  executions :: "execution list"
  orders_placed :: "order_request list"
  poller_queue :: "poller_entry list"

text \<open>Committing a mutated ORM object writes the row with its primary key.\<close>

definition commit_execution :: "execution \<Rightarrow> execution list \<Rightarrow> execution list" where
  "commit_execution e rows = map (\<lambda>r. if eid r = eid e then e else r) rows"

fun is_success :: "order_reply \<Rightarrow> bool" where
  "is_success (OrderResponse st oid msg) = (st = Some ''success'')"
| "is_success r = False"

fun reply_orderid :: "order_reply \<Rightarrow> string option" where
  "reply_orderid (OrderResponse st oid msg) = oid"
| "reply_orderid r = None"

fun reply_error_msg :: "order_reply \<Rightarrow> string option" where
  "reply_error_msg (OrderResponse st oid None) = Some ''Unknown error''"
| "reply_error_msg (OrderResponse st oid (Some m)) = Some m"
| "reply_error_msg r = Some ''No response''"

text \<open>
  Lines 769 to 820: one submission, then \<open>mark_exit_success\<close> and the poller, or
  \<open>mark_exit_failed\<close>. A raising submission becomes an error envelope. When the
  re-fetch finds no row the \<^verbatim>\<open>mark\<close> call raises and the position's \<^verbatim>\<open>except\<close>
  rolls back.
\<close>

definition place_exit ::
  "env \<Rightarrow> strategy \<Rightarrow> trading_account \<Rightarrow> client \<Rightarrow> execution \<Rightarrow> world \<times> nat \<Rightarrow> world \<times> nat" where
  "place_exit env strat acct cl e ws =
     (let w = fst ws; success_count = snd ws;
          request = \<lparr>o_user_id = user_id strat, o_strategy = name strat,
                      o_symbol = symbol e, o_exchange = exchange e,
                      o_action = exit_action_of e, o_quantity = quantity e,
                      o_price_type = ''MARKET'',
                      o_product = or_else (product e) (or_else (product_order_type strat) ''MIS'')\<rparr>;
          response = (case place_order_with_freeze_check cl request of
                        OrderRaises api_error \<Rightarrow>
                          OrderResponse (Some ''error'') None (Some (''API error: '' @ api_error))
                      | r \<Rightarrow> r);
          w1 = w\<lparr>orders_placed := orders_placed w @ [request]\<rparr>
      in case query_get (executions w1) (eid e) of
           None \<Rightarrow> (w1, success_count)
         | Some e1 \<Rightarrow>
             if is_success response
             then (w1\<lparr>executions :=
                        commit_execution
                          (mark_exit_success (mark_utcnow env (eid e)) e1 (reply_orderid response))
                          (executions w1),
                      poller_queue := poller_queue w1 @
                        [\<lparr>p_execution_id = eid e1, p_account = acct,
                          p_order_id = reply_orderid response, p_strategy_name = name strat\<rparr>]\<rparr>,
                   success_count + 1)
             else (w1\<lparr>executions :=
                        commit_execution
                          (mark_exit_failed (mark_utcnow env (eid e)) e1
                             (reply_error_msg response) True)
                          (executions w1)\<rparr>,
                   success_count))"

text \<open>
  Lines 700 to 768: the body of the loop after a successful claim. A retry
  (\<open>exit_attempt_count > 1\<close>) asks Broker Verification first.
\<close>

definition process_claimed :: "env \<Rightarrow> strategy \<Rightarrow> nat \<Rightarrow> world \<times> nat \<Rightarrow> world \<times> nat" where
  "process_claimed env strat exec_id ws =
     (let w = fst ws; success_count = snd ws
      in case query_get (executions w) exec_id of
           None \<Rightarrow> ws
         | Some e \<Rightarrow>
            (case account e of
               None \<Rightarrow> ws
             | Some acct \<Rightarrow>
                if \<not> is_active acct then ws
                else
                 (let cl = client_for env exec_id;
                      attempt_count = coalesce0 (exit_attempt_count e)
                  in if attempt_count > 1
                     then
                      (let v = verify_exit_order_at_broker cl e
                       in if \<not> can_place_exit v
                          then
                           (if order_status v = Some ''complete''
                            then (w\<lparr>executions :=
                                      commit_execution
                                        (mark_exit_confirmed (mark_utcnow env exec_id) e
                                           ''complete'' (order_id v))
                                        (executions w)\<rparr>,
                                  success_count + 1)
                            else if position_quantity v = 0
                            then (w\<lparr>executions :=
                                      commit_execution
                                        (e\<lparr>status := ''exited'',
                                           exit_reason := Some ''broker_confirmed_closed'',
                                           exit_time := Some (mark_utcnow env exec_id)\<rparr>)
                                        (executions w)\<rparr>,
                                  success_count + 1)
                            else ws)
                          else place_exit env strat acct cl e ws)
                     else place_exit env strat acct cl e ws)))"

text \<open>Lines 681 to 698: the claim that opens the loop body.\<close>

definition process_execution ::
  "env \<Rightarrow> strategy \<Rightarrow> bool \<Rightarrow> string \<Rightarrow> world \<times> nat \<Rightarrow> nat \<Rightarrow> world \<times> nat" where
  "process_execution env strat is_retry_event reason ws exec_id =
     (let w = fst ws; success_count = snd ws;
          claim = (if is_retry_event
                   then atomic_claim_exit_retry (claim_raises env exec_id)
                          (claim_utcnow env exec_id) (executions w) exec_id reason
                   else atomic_claim_exit (claim_raises env exec_id)
                          (claim_utcnow env exec_id) (executions w) exec_id reason);
          w1 = w\<lparr>executions := snd claim\<rparr>
      in if \<not> fst claim then (w1, success_count)
         else process_claimed env strat exec_id (w1, success_count))"

text \<open>Lines 663 to 669: SELL entries, then BUY entries, then positions without a leg.\<close>

definition order_executions :: "execution list \<Rightarrow> execution list" where
  "order_executions open_executions =
     (let sell_positions =
            filter (\<lambda>ex. case leg ex of Some l \<Rightarrow> action l = ''SELL'' | None \<Rightarrow> False)
              open_executions;
          buy_positions =
            filter (\<lambda>ex. case leg ex of Some l \<Rightarrow> action l = ''BUY'' | None \<Rightarrow> False)
              open_executions;
          unknown_positions = filter (\<lambda>ex. leg ex = None) open_executions
      in sell_positions @ buy_positions @ unknown_positions)"

text \<open>Lines 618 to 649: the candidates of a first trigger and of a retry event.\<close>

definition open_executions_of :: "strategy \<Rightarrow> bool \<Rightarrow> execution list \<Rightarrow> execution list" where
  "open_executions_of strat is_retry_event rows =
     (let selected =
            (if is_retry_event
             then filter (\<lambda>ex. strategy_id ex = sid strat
                           \<and> (status ex = ''entered'' \<or> status ex = ''exit_pending'')
                           \<and> exit_order_id ex = None) rows
             else filter (\<lambda>ex. strategy_id ex = sid strat \<and> status ex = ''entered''
                           \<and> exit_order_id ex = None) rows)
      in filter (\<lambda>ex. broker_order_status ex \<notin> set [Some ''rejected'', Some ''cancelled''])
           selected)"

text \<open>
  The whole function. The strategy is fetched again by its id; a set latch ends the
  call at once. Otherwise the latch is set and committed, the candidates are
  selected, ordered and processed one after the other.
\<close>

definition trigger_sequential_exit :: "env \<Rightarrow> world \<Rightarrow> strategy \<Rightarrow> string \<Rightarrow> world" where
  "trigger_sequential_exit env w strategy0 reason =
     (case find (\<lambda>s. sid s = sid strategy0) (strategies w) of
        None \<Rightarrow> w
      | Some fetched \<Rightarrow>
          if supertrend_exit_triggered fetched then w
          else
           (let strat = fetched\<lparr>supertrend_exit_triggered := True,
                          supertrend_exit_reason := Some reason,
                          supertrend_exit_triggered_at := Some (get_ist_now env)\<rparr>;
                w1 = w\<lparr>strategies :=
                        map (\<lambda>s. if sid s = sid strat then strat else s) (strategies w)\<rparr>;
                is_retry_event = contains ''RETRY'' (str_upper reason);
                open_executions = open_executions_of strat is_retry_event (executions w1)
            in if open_executions = [] then w1
               else
                (let execution_ids = map eid (order_executions open_executions)
                 in fst (foldl (process_execution env strat is_retry_event reason)
                           (w1, 0) execution_ids))))"

section \<open>The retry sweep of monitor\_strategies\<close>

definition get_pending_exit_retries :: "datetime \<Rightarrow> execution list \<Rightarrow> nat \<Rightarrow> execution list" where
  "get_pending_exit_retries now rows strategy_id0 =
     filter (\<lambda>ex. strategy_id ex = strategy_id0 \<and> status ex = ''exit_pending''
               \<and> exit_order_id ex = None \<and> sql_le (exit_retry_after ex) now
               \<and> sql_less (exit_attempt_count ex) MAX_EXIT_ATTEMPTS) rows"

text \<open>
  Lines 157 to 186: every enabled, active strategy whose latch is set and that the
  first loop of this tick did not process, is handed to \<open>trigger_sequential_exit\<close>
  with a RETRY reason when it has positions ready for a retry. \<open>now\<close> is the
  \<^verbatim>\<open>utcnow()\<close> of the query.
\<close>

definition retry_strategy :: "env \<Rightarrow> datetime \<Rightarrow> nat set \<Rightarrow> world \<Rightarrow> strategy \<Rightarrow> world" where
  "retry_strategy env now processed w strat =
     (if sid strat \<in> processed then w
      else
       (let pending_retries = get_pending_exit_retries now (executions w) (sid strat)
        in if pending_retries \<noteq> []
           then trigger_sequential_exit env w strat
                  (''Supertrend RETRY - '' @ str_nat (length pending_retries)
                     @ '' positions pending'')
           else w))"

definition retry_sweep :: "env \<Rightarrow> datetime \<Rightarrow> nat set \<Rightarrow> world \<Rightarrow> world" where
  "retry_sweep env now processed w =
     (let triggered_strategies =
            filter (\<lambda>s. supertrend_exit_enabled s \<and> supertrend_exit_triggered s
                      \<and> strategy_is_active s) (strategies w)
      in foldl (retry_strategy env now processed) w triggered_strategies)"

section \<open>Supertrend (supertrend.py)\<close>

text \<open>
  A numpy float is a real number or NaN (\<open>None\<close>); a comparison with NaN is false.
  The loop of \<open>get_final_bands_nb\<close> only compares and copies such values, and writes
  the integers 1 and -1 into \<^verbatim>\<open>dir_\<close>. The three arrays have the length of
  \<^verbatim>\<open>close\<close>, as the arrays talib returns have.
\<close>

type_synonym npfloat = "real option"

fun fgt :: "npfloat \<Rightarrow> npfloat \<Rightarrow> bool" where
  "fgt (Some a) (Some b) = (a > b)"
| "fgt a b = False"

fun flt :: "npfloat \<Rightarrow> npfloat \<Rightarrow> bool" where
  "flt (Some a) (Some b) = (a < b)"
| "flt a b = False"

record bands =
  upper :: "npfloat list"
  lower :: "npfloat list"
  trend :: "npfloat list"
  dir :: "int list"
  long :: "npfloat list"
  short :: "npfloat list"

text \<open>The body of the loop, for one index \<open>i \<ge> 1\<close>.\<close>

definition band_step :: "npfloat list \<Rightarrow> bands \<Rightarrow> nat \<Rightarrow> bands" where
  "band_step close b i =
     (let b1 =
        (if fgt (close ! i) (upper b ! (i - 1)) then b\<lparr>dir := (dir b)[i := 1]\<rparr>
         else if flt (close ! i) (lower b ! (i - 1)) then b\<lparr>dir := (dir b)[i := - 1]\<rparr>
         else
          (let b2 = b\<lparr>dir := (dir b)[i := dir b ! (i - 1)]\<rparr>;
               b3 = (if dir b2 ! i > 0 \<and> flt (lower b2 ! i) (lower b2 ! (i - 1))
                     then b2\<lparr>lower := (lower b2)[i := lower b2 ! (i - 1)]\<rparr> else b2)
           in if dir b3 ! i < 0 \<and> fgt (upper b3 ! i) (upper b3 ! (i - 1))
              then b3\<lparr>upper := (upper b3)[i := upper b3 ! (i - 1)]\<rparr> else b3))
      in if dir b1 ! i > 0
         then b1\<lparr>trend := (trend b1)[i := lower b1 ! i], long := (long b1)[i := lower b1 ! i]\<rparr>
         else b1\<lparr>trend := (trend b1)[i := upper b1 ! i], short := (short b1)[i := upper b1 ! i]\<rparr>)"

definition get_final_bands_nb :: "npfloat list \<Rightarrow> npfloat list \<Rightarrow> npfloat list \<Rightarrow> bands" where
  "get_final_bands_nb close upper0 lower0 =
     foldl (band_step close)
       \<lparr>upper = upper0, lower = lower0,
        trend = replicate (length close) None,
        dir = replicate (length close) 1,
        long = replicate (length close) None,
        short = replicate (length close) None\<rparr>
       [1..<length close]"

text \<open>
  \<open>calculate_supertrend\<close> gets the basic bands from talib's MEDPRICE and ATR and from
  \<open>get_basic_bands\<close>, which are float arithmetic outside this model: the spread
  series enters with its close prices and its basic bands.
\<close>

record spread_data =
  sd_close :: "npfloat list"
  sd_upper :: "npfloat list"
  sd_lower :: "npfloat list"

definition calculate_supertrend :: "spread_data \<Rightarrow> bands" where
  "calculate_supertrend sd = get_final_bands_nb (sd_close sd) (sd_upper sd) (sd_lower sd)"

section \<open>Signal evaluation (check\_supertrend\_exit)\<close>

text \<open>
  \<open>supertrend_signal\<close> is the function up to the decision: the exit reason with which
  \<open>trigger_sequential_exit\<close> is called, or \<open>None\<close> when it is not called. The two
  formatted prices of the reason are left out. \<open>spread\<close> is what
  \<open>fetch_combined_spread_data\<close> returned.
\<close>

definition supertrend_signal ::
  "strategy \<Rightarrow> execution list \<Rightarrow> spread_data option \<Rightarrow> string option" where
  "supertrend_signal strat rows spread =
     (let open_positions =
            filter (\<lambda>pos. broker_order_status pos \<notin> set [Some ''rejected'', Some ''cancelled''])
              (filter (\<lambda>pos. strategy_id pos = sid strat \<and> status pos = ''entered'') rows)
      in if open_positions = [] then None
         else case spread of
                None \<Rightarrow> None
              | Some sd \<Rightarrow>
                 if int (length (sd_close sd)) < supertrend_period strat + 5 then None
                 else
                  (let direction = dir (calculate_supertrend sd)
                   in if direction = [] then None
                      else
                       (let latest_direction = last direction
                        in if supertrend_exit_type strat = Some ''breakout''
                           then (if latest_direction = - 1
                                 then Some ''supertrend_breakout'' else None)
                           else if supertrend_exit_type strat = Some ''breakdown''
                           then (if latest_direction = 1
                                 then Some ''supertrend_breakdown'' else None)
                           else None)))"

definition check_supertrend_exit ::
  "env \<Rightarrow> world \<Rightarrow> strategy \<Rightarrow> spread_data option \<Rightarrow> world" where
  "check_supertrend_exit env w strat spread =
     (case supertrend_signal strat (executions w) spread of
        None \<Rightarrow> w
      | Some reason \<Rightarrow> trigger_sequential_exit env w strat reason)"

section \<open>Sequences of claims\<close>

datatype claim_call =
    Fresh bool datetime nat string
  | Retry bool datetime nat string

fun run_claim :: "execution list \<Rightarrow> claim_call \<Rightarrow> execution list" where
  "run_claim rows (Fresh f now i reason) = snd (atomic_claim_exit f now rows i reason)"
| "run_claim rows (Retry f now i reason) = snd (atomic_claim_exit_retry f now rows i reason)"

definition run_claims :: "claim_call list \<Rightarrow> execution list \<Rightarrow> execution list" where
  "run_claims calls rows = foldl run_claim rows calls"

section \<open>Concrete inputs\<close>

text \<open>
  A position as the entry path leaves it: status \<^verbatim>\<open>entered\<close>, no exit attempted.
  It is the concrete input of the evaluations below.
\<close>

definition entered_position :: "nat \<Rightarrow> execution" where
  "entered_position i =
     \<lparr>eid = i, strategy_id = 1, leg = Some \<lparr>action = ''SELL''\<rparr>,
      account = Some \<lparr>aid = 1, account_name = ''primary'', is_active = True\<rparr>,
      symbol = Some ''NIFTY24000CE'', exchange = Some ''NFO'', quantity = 75,
      product = Some ''MIS'', status = ''entered'', exit_order_id = None,
      exit_reason = None, exit_pending_since = None, exit_attempt_count = Some 0,
      exit_retry_after = None, exit_broker_verified = False,
      broker_order_status = Some ''complete'', exit_time = None, error_message = None\<rparr>"

text \<open>The same position claimed once at instant 0, waiting until instant 10000000.\<close>

definition pending_position :: "nat \<Rightarrow> execution" where
  "pending_position i =
     (entered_position i)\<lparr>status := ''exit_pending'', exit_reason := Some ''max_loss'',
        exit_pending_since := Some 0, exit_attempt_count := Some 1,
        exit_retry_after := Some 10000000\<rparr>"

text \<open>The same position after a second claim at instant 20000000.\<close>

definition retried_position :: "nat \<Rightarrow> execution" where
  "retried_position i =
     (pending_position i)\<lparr>exit_attempt_count := Some 2, exit_retry_after := Some 30000000\<rparr>"

text \<open>
  Broker clients. The position book shows the short position of 75; one client has
  an order book that answers with an error envelope, one a trade book that does, one
  a position book that does.
\<close>

definition short_position_book :: "pb_entry response" where
  "short_position_book =
     Response (Some ''success'')
       [\<lparr>pb_symbol = Some ''NIFTY24000CE'', pb_quantity = Some (Num (- 75))\<rparr>]"

definition accept_order :: "order_request \<Rightarrow> order_reply" where
  "accept_order rq = OrderResponse (Some ''success'') (Some ''ORD1'') None"

definition healthy_client :: client where
  "healthy_client =
     \<lparr>positionbook = short_position_book,
      orderbook = Response (Some ''success'') [],
      tradebook = Response (Some ''success'') [],
      place_order_with_freeze_check = accept_order\<rparr>"

definition orderbook_down :: client where
  "orderbook_down = healthy_client\<lparr>orderbook := Response (Some ''error'') []\<rparr>"

definition tradebook_down :: client where
  "tradebook_down = healthy_client\<lparr>tradebook := Response (Some ''error'') []\<rparr>"

definition positionbook_down :: client where
  "positionbook_down = healthy_client\<lparr>positionbook := Response (Some ''error'') []\<rparr>"

definition quiet_env :: "client \<Rightarrow> env" where
  "quiet_env cl =
     \<lparr>get_ist_now = 0, claim_raises = (\<lambda>i. False), claim_utcnow = (\<lambda>i. 20000000),
      mark_utcnow = (\<lambda>i. 21000000), client_for = (\<lambda>i. cl)\<rparr>"

text \<open>A strategy in breakout mode with period 7, and the same in breakdown mode.\<close>

definition breakout_strategy :: strategy where
  "breakout_strategy =
     \<lparr>sid = 1, name = ''short strangle'', user_id = 1, strategy_is_active = True,
      product_order_type = Some ''MIS'', supertrend_exit_enabled = True,
      supertrend_exit_type = Some ''breakout'', supertrend_period = 7,
      supertrend_timeframe = Some ''5m'', supertrend_exit_triggered = False,
      supertrend_exit_reason = None, supertrend_exit_triggered_at = None\<rparr>"

definition breakdown_strategy :: strategy where
  "breakdown_strategy = breakout_strategy\<lparr>supertrend_exit_type := Some ''breakdown''\<rparr>"

text \<open>A BUY entry, and a strategy with legs BUY, SELL, SELL, all entered.\<close>

definition buy_position :: "nat \<Rightarrow> execution" where
  "buy_position i =
     (entered_position i)\<lparr>leg := Some \<lparr>action = ''BUY''\<rparr>, symbol := Some ''NIFTY24500CE''\<rparr>"

definition three_legs :: world where
  "three_legs =
     \<lparr>strategies = [breakout_strategy],
      executions = [buy_position 1, entered_position 2, entered_position 3],
      orders_placed = [], poller_queue = []\<rparr>"

text \<open>
  Twelve bars of a spread. The ATR of period 7 is NaN on the first seven bars, then
  the basic bands are 70 and 130. Bar 8 closes below the lower band (direction -1);
  the last bar closes at 140, above the upper band, in \<open>bullish_cross\<close>, and at 100,
  between the bands, in \<open>still_bearish\<close>.
\<close>

definition flat_upper :: "npfloat list" where
  "flat_upper = [None, None, None, None, None, None, None,
                 Some 130, Some 130, Some 130, Some 130, Some 130]"

definition flat_lower :: "npfloat list" where
  "flat_lower = [None, None, None, None, None, None, None,
                 Some 70, Some 70, Some 70, Some 70, Some 70]"

definition bullish_cross :: spread_data where
  "bullish_cross =
     \<lparr>sd_close = map Some [100, 100, 100, 100, 100, 100, 100, 100, 60, 100, 100, 140],
      sd_upper = flat_upper, sd_lower = flat_lower\<rparr>"

definition still_bearish :: spread_data where
  "still_bearish =
     \<lparr>sd_close = map Some [100, 100, 100, 100, 100, 100, 100, 100, 60, 100, 100, 100],
      sd_upper = flat_upper, sd_lower = flat_lower\<rparr>"

section \<open>Claims on a position that already has an exit order\<close>

lemma sa_update_no_match:
  "\<forall>r \<in> set rows. \<not> wh r \<Longrightarrow> sa_update wh vals rows = (rows, 0)"
  by (induction rows) (auto simp: sa_update_def)

text \<open>
  C1. A position whose \<open>exit_order_id\<close> is non-null is never claimed: whatever the
  table, the instant, the reason and whether the store raises, both
  \<open>atomic_claim_exit\<close> and \<open>atomic_claim_exit_retry\<close> on its id return \<open>False\<close> and
  leave the table, hence every field of the position, as it was. (Every row with
  that id is taken to have an order id, the id being the primary key.)
\<close>

theorem claim_after_order_id_fails:
  assumes "\<forall>r \<in> set rows. eid r = i \<longrightarrow> exit_order_id r \<noteq> None"
  shows "atomic_claim_exit f now rows i reason = (False, rows)
       \<and> atomic_claim_exit_retry f now rows i reason = (False, rows)"
proof -
  have a: "\<forall>r \<in> set rows. \<not> claim_where i r"
    using assms by (auto simp: claim_where_def)
  have b: "\<forall>r \<in> set rows. \<not> retry_where now i r"
    using assms by (auto simp: retry_where_def)
  show ?thesis
    by (simp add: atomic_claim_exit_def atomic_claim_exit_retry_def
        sa_update_no_match [OF a] sa_update_no_match [OF b])
qed



theorem claim_after_order_id_fails_witness:
  "atomic_claim_exit False 100 [(entered_position 7)\<lparr>exit_order_id := Some ''ORD1''\<rparr>] 7 ''max_loss''
       = (False, [(entered_position 7)\<lparr>exit_order_id := Some ''ORD1''\<rparr>])
   \<and> atomic_claim_exit_retry False 100 [(entered_position 7)\<lparr>exit_order_id := Some ''ORD1''\<rparr>] 7 ''max_loss''
       = (False, [(entered_position 7)\<lparr>exit_order_id := Some ''ORD1''\<rparr>])"
proof -
  have h: "\<forall>r \<in> set [(entered_position 7)\<lparr>exit_order_id := Some ''ORD1''\<rparr>].
       eid r = 7 \<longrightarrow> exit_order_id r \<noteq> None"
    by simp
  show ?thesis
    using claim_after_order_id_fails [OF h, of False 100 "''max_loss''"] by simp
qed

section \<open>Which operations write \<open>exit_order_id\<close>\<close>

lemma sa_update_rows:
  "fst (sa_update wh vals rows) = map (\<lambda>r. if wh r then vals r else r) rows"
  by (simp add: sa_update_def)

lemma sa_update_rowcount:
  "snd (sa_update wh vals rows) > 0 \<longleftrightarrow> (\<exists>r \<in> set rows. wh r)"
  by (auto simp: sa_update_def filter_empty_conv)

lemma atomic_claim_exit_rows:
  "snd (atomic_claim_exit f now rows i reason) =
     (if f then rows else map (\<lambda>r. if claim_where i r then claim_values now reason r else r) rows)"
  by (simp add: atomic_claim_exit_def sa_update_def)

lemma atomic_claim_exit_retry_rows:
  "snd (atomic_claim_exit_retry f now rows i reason) =
     (if f then rows
      else map (\<lambda>r. if retry_where now i r then retry_values now reason r else r) rows)"
  by (simp add: atomic_claim_exit_retry_def sa_update_def)

text \<open>
  C2, as the code has it. The two claims, \<open>mark_exit_pending\<close> and \<open>mark_exit_failed\<close>
  never write \<open>exit_order_id\<close>. \<open>mark_exit_success\<close> assigns its argument whatever the
  field held, and \<open>mark_exit_confirmed\<close> assigns its argument whenever that argument is
  a non-empty string, and leaves the field alone otherwise; neither looks at the
  field's old value.
\<close>

theorem exit_order_id_writers:
  "map exit_order_id (snd (atomic_claim_exit f now rows i reason)) = map exit_order_id rows
   \<and> map exit_order_id (snd (atomic_claim_exit_retry f now rows i reason)) = map exit_order_id rows
   \<and> exit_order_id (mark_exit_pending now e reason inc) = exit_order_id e
   \<and> exit_order_id (mark_exit_failed now e err needs) = exit_order_id e
   \<and> exit_order_id (mark_exit_success now e oid) = oid
   \<and> exit_order_id (mark_exit_confirmed now e broker_status None) = exit_order_id e
   \<and> exit_order_id (mark_exit_confirmed now e broker_status (Some [])) = exit_order_id e
   \<and> exit_order_id (mark_exit_confirmed now e broker_status (Some (c # cs))) = Some (c # cs)"
proof -
  have 1: "map exit_order_id (snd (atomic_claim_exit f now rows i reason)) = map exit_order_id rows"
    by (simp add: atomic_claim_exit_rows claim_values_def comp_def cong: map_cong)
  have 2: "map exit_order_id (snd (atomic_claim_exit_retry f now rows i reason)) = map exit_order_id rows"
    by (simp add: atomic_claim_exit_retry_rows retry_values_def comp_def cong: map_cong)
  have 3: "exit_order_id (mark_exit_pending now e reason inc) = exit_order_id e"
    by (simp add: mark_exit_pending_def Let_def)
  have 4: "exit_order_id (mark_exit_failed now e err needs) = exit_order_id e"
    by (simp add: mark_exit_failed_def)
  have 5: "exit_order_id (mark_exit_success now e oid) = oid"
    by (simp add: mark_exit_success_def)
  have 6: "exit_order_id (mark_exit_confirmed now e broker_status None) = exit_order_id e"
    "exit_order_id (mark_exit_confirmed now e broker_status (Some [])) = exit_order_id e"
    "exit_order_id (mark_exit_confirmed now e broker_status (Some (c # cs))) = Some (c # cs)"
    by (simp_all add: mark_exit_confirmed_def Let_def)
  from 1 2 3 4 5 6 show ?thesis by blast
qed

text \<open>
  The claim as written fails: a position with order id \<^verbatim>\<open>ORD1\<close> that
  \<open>mark_exit_confirmed\<close> is given the id \<^verbatim>\<open>ORD2\<close> for ends with \<^verbatim>\<open>ORD2\<close>, and
  \<open>mark_exit_success\<close> with no order id (a success envelope without \<^verbatim>\<open>orderid\<close>)
  clears it.
\<close>

theorem exit_order_id_overwritten:
  "exit_order_id ((entered_position 7)\<lparr>exit_order_id := Some ''ORD1''\<rparr>) = Some ''ORD1''
   \<and> exit_order_id (mark_exit_confirmed 100 ((entered_position 7)\<lparr>exit_order_id := Some ''ORD1''\<rparr>)
        ''complete'' (Some ''ORD2'')) = Some ''ORD2''
   \<and> exit_order_id (mark_exit_success 100 ((entered_position 7)\<lparr>exit_order_id := Some ''ORD1''\<rparr>)
        None) = None"
  by (simp add: mark_exit_confirmed_def mark_exit_success_def Let_def entered_position_def)

section \<open>After a failed submission\<close>

text \<open>
  C9, as the code has it. \<open>mark_exit_failed\<close> sets the status to \<^verbatim>\<open>exit_pending\<close>
  whatever it was, does not touch \<open>exit_order_id\<close> (null after the call exactly when
  it was null before), records the first 500 characters of the message (null for an
  empty or missing message), re-arms \<open>exit_retry_after\<close> to ten seconds after the
  call and sets \<open>exit_broker_verified\<close> to the negation of
  \<open>needs_broker_verification\<close>.
\<close>

theorem mark_exit_failed_effect:
  "status (mark_exit_failed now e err needs) = ''exit_pending''
   \<and> exit_order_id (mark_exit_failed now e err needs) = exit_order_id e
   \<and> error_message (mark_exit_failed now e None needs) = None
   \<and> error_message (mark_exit_failed now e (Some []) needs) = None
   \<and> error_message (mark_exit_failed now e (Some (c # cs)) needs) = Some (take 500 (c # cs))
   \<and> exit_retry_after (mark_exit_failed now e err needs)
        = Some (now + timedelta_seconds EXIT_RETRY_DELAY_SECONDS)
   \<and> timedelta_seconds EXIT_RETRY_DELAY_SECONDS = 10000000
   \<and> exit_broker_verified (mark_exit_failed now e err needs) = (\<not> needs)"
  by (simp add: mark_exit_failed_def timedelta_seconds_def EXIT_RETRY_DELAY_SECONDS_def)

text \<open>
  The claim as written fails on a position that already carries an order id: after
  \<open>mark_exit_failed\<close> the id is still there, not null.
\<close>

theorem mark_exit_failed_keeps_order_id:
  "exit_order_id (mark_exit_failed 100 ((entered_position 7)\<lparr>exit_order_id := Some ''ORD1''\<rparr>)
      (Some ''timeout'') True) \<noteq> None"
  by (simp add: mark_exit_failed_def entered_position_def)


section \<open>Retry claims and the cooldown\<close>

text \<open>
  C7. On a position whose \<open>exit_retry_after\<close> lies strictly after \<open>now\<close>,
  \<open>atomic_claim_exit_retry\<close> returns \<open>False\<close> and changes nothing. On the position
  \<open>p\<close> with id \<open>i\<close> (the only row with that id), status \<^verbatim>\<open>exit_pending\<close>, no order
  id, \<open>exit_retry_after \<le> now\<close> and fewer than \<open>MAX_EXIT_ATTEMPTS\<close> attempts, with a
  store that carries the UPDATE out (no contender has changed the row, nothing is
  raised), it returns \<open>True\<close>, and the row becomes \<open>p\<close> with one more attempt,
  \<open>exit_retry_after\<close> ten seconds after \<open>now\<close> and the new reason; no other row
  changes.
\<close>

theorem claim_retry_cooldown:
  "((\<forall>r \<in> set rows. eid r = i \<longrightarrow> (\<exists>t. exit_retry_after r = Some t \<and> now < t))
      \<longrightarrow> atomic_claim_exit_retry f now rows i reason = (False, rows))
   \<and> (p \<in> set rows \<and> (\<forall>r \<in> set rows. eid r = i \<longrightarrow> r = p) \<and> eid p = i
        \<and> status p = ''exit_pending'' \<and> exit_order_id p = None
        \<and> exit_retry_after p = Some t \<and> t \<le> now
        \<and> exit_attempt_count p = Some n \<and> n < MAX_EXIT_ATTEMPTS
      \<longrightarrow> atomic_claim_exit_retry False now rows i reason =
            (True, map (\<lambda>r. if eid r = i
                             then p\<lparr>exit_attempt_count := Some (n + 1),
                                    exit_retry_after := Some (now + 10 * 1000000),
                                    exit_reason := Some reason\<rparr>
                             else r) rows))"
proof (intro conjI impI)
  assume "\<forall>r \<in> set rows. eid r = i \<longrightarrow> (\<exists>t. exit_retry_after r = Some t \<and> now < t)"
  then have "\<forall>r \<in> set rows. \<not> retry_where now i r"
    by (auto simp: retry_where_def)
  then show "atomic_claim_exit_retry f now rows i reason = (False, rows)"
    by (simp add: atomic_claim_exit_retry_def sa_update_no_match)
next
  assume a: "p \<in> set rows \<and> (\<forall>r \<in> set rows. eid r = i \<longrightarrow> r = p) \<and> eid p = i
        \<and> status p = ''exit_pending'' \<and> exit_order_id p = None
        \<and> exit_retry_after p = Some t \<and> t \<le> now
        \<and> exit_attempt_count p = Some n \<and> n < MAX_EXIT_ATTEMPTS"
  then have w: "retry_where now i p"
    by (simp add: retry_where_def)
  have eq: "\<And>r. r \<in> set rows \<Longrightarrow> retry_where now i r \<longleftrightarrow> eid r = i"
    using a w by (auto simp: retry_where_def)
  have v: "retry_values now reason p =
      p\<lparr>exit_attempt_count := Some (n + 1),
        exit_retry_after := Some (now + 10 * 1000000),
        exit_reason := Some reason\<rparr>"
    using a by (simp add: retry_values_def timedelta_seconds_def EXIT_RETRY_DELAY_SECONDS_def)
  have rows: "map (\<lambda>r. if retry_where now i r then retry_values now reason r else r) rows =
      map (\<lambda>r. if eid r = i
                then p\<lparr>exit_attempt_count := Some (n + 1),
                       exit_retry_after := Some (now + 10 * 1000000),
                       exit_reason := Some reason\<rparr>
                else r) rows"
  proof (rule map_cong [OF refl])
    fix r assume r: "r \<in> set rows"
    show "(if retry_where now i r then retry_values now reason r else r) =
      (if eid r = i
       then p\<lparr>exit_attempt_count := Some (n + 1),
              exit_retry_after := Some (now + 10 * 1000000),
              exit_reason := Some reason\<rparr>
       else r)"
    proof (cases "eid r = i")
      case True
      then have "r = p" using a r by blast
      then show ?thesis using True w v by simp
    next
      case False
      then show ?thesis using eq [OF r] by simp
    qed
  qed
  have cnt: "snd (sa_update (retry_where now i) (retry_values now reason) rows) > 0"
    using a w by (subst sa_update_rowcount) blast
  show "atomic_claim_exit_retry False now rows i reason =
            (True, map (\<lambda>r. if eid r = i
                             then p\<lparr>exit_attempt_count := Some (n + 1),
                                    exit_retry_after := Some (now + 10 * 1000000),
                                    exit_reason := Some reason\<rparr>
                             else r) rows)"
    using cnt rows
    by (simp add: atomic_claim_exit_retry_def sa_update_def)
qed


theorem claim_retry_cooldown_witness:
  "atomic_claim_exit_retry False 9999999 [pending_position 7] 7 ''retry'' =
     (False, [pending_position 7])
   \<and> atomic_claim_exit_retry False 10000000 [pending_position 7] 7 ''retry'' =
     (True, [(pending_position 7)\<lparr>exit_attempt_count := Some 2,
               exit_retry_after := Some 20000000, exit_reason := Some ''retry''\<rparr>])"
proof -
  have h1: "\<forall>r \<in> set [pending_position 7].
      eid r = 7 \<longrightarrow> (\<exists>t. exit_retry_after r = Some t \<and> (9999999::int) < t)"
    by (simp add: pending_position_def entered_position_def)
  have h2: "pending_position 7 \<in> set [pending_position 7]
      \<and> (\<forall>r \<in> set [pending_position 7]. eid r = 7 \<longrightarrow> r = pending_position 7)
      \<and> eid (pending_position 7) = 7
      \<and> status (pending_position 7) = ''exit_pending''
      \<and> exit_order_id (pending_position 7) = None
      \<and> exit_retry_after (pending_position 7) = Some 10000000 \<and> (10000000::int) \<le> 10000000
      \<and> exit_attempt_count (pending_position 7) = Some 1 \<and> 1 < MAX_EXIT_ATTEMPTS"
    by (simp add: pending_position_def entered_position_def MAX_EXIT_ATTEMPTS_def)
  have e: "eid (pending_position 7) = 7"
    by (simp add: pending_position_def entered_position_def)
  from claim_retry_cooldown [of "[pending_position 7]" 7 9999999 False "''retry''"
      "pending_position 7" 10000000 1] h1
  have a: "atomic_claim_exit_retry False 9999999 [pending_position 7] 7 ''retry'' =
     (False, [pending_position 7])"
    by blast
  from claim_retry_cooldown [of "[pending_position 7]" 7 10000000 False "''retry''"
      "pending_position 7" 10000000 1] h2
  have b: "atomic_claim_exit_retry False 10000000 [pending_position 7] 7 ''retry'' =
     (True, map (\<lambda>r. if eid r = 7
                      then (pending_position 7)\<lparr>exit_attempt_count := Some (1 + 1),
                             exit_retry_after := Some (10000000 + 10 * 1000000),
                             exit_reason := Some ''retry''\<rparr>
                      else r) [pending_position 7])"
    by blast
  show ?thesis using a b e by simp
qed

section \<open>The bound on attempts\<close>


lemma run_claim_attempts:
  assumes "\<forall>r \<in> set rows. coalesce0 (exit_attempt_count r) \<le> MAX_EXIT_ATTEMPTS
              \<and> (status r = ''entered'' \<longrightarrow> coalesce0 (exit_attempt_count r) < MAX_EXIT_ATTEMPTS)"
  shows "\<forall>r \<in> set (run_claim rows c). coalesce0 (exit_attempt_count r) \<le> MAX_EXIT_ATTEMPTS
              \<and> (status r = ''entered'' \<longrightarrow> coalesce0 (exit_attempt_count r) < MAX_EXIT_ATTEMPTS)"
proof (cases c)
  case (Fresh f now i reason)
  show ?thesis
    unfolding Fresh run_claim.simps atomic_claim_exit_rows
    using assms by (auto simp: claim_where_def claim_values_def)
next
  case (Retry f now i reason)
  have less: "retry_where now i r \<Longrightarrow> coalesce0 (exit_attempt_count r) < MAX_EXIT_ATTEMPTS" for r
    by (cases "exit_attempt_count r") (auto simp: retry_where_def)
  have st: "\<And>r. retry_where now i r \<Longrightarrow> status (retry_values now reason r) \<noteq> ''entered''"
    by (simp add: retry_where_def retry_values_def)
  have cnt: "\<And>r. coalesce0 (exit_attempt_count (retry_values now reason r))
      = coalesce0 (exit_attempt_count r) + 1"
    by (simp add: retry_values_def)
  show ?thesis
    unfolding Retry run_claim.simps atomic_claim_exit_retry_rows
    using assms less st cnt by (fastforce split: if_splits)
qed

text \<open>
  C6, as the code has it. \<open>atomic_claim_exit\<close> does not test the attempt count, so the
  bound needs the count of a position that is still \<^verbatim>\<open>entered\<close> to lie strictly
  below \<open>MAX_EXIT_ATTEMPTS\<close> (a fresh position has count 0). From a table where every
  count is at most \<open>MAX_EXIT_ATTEMPTS\<close>, and strictly below it for \<^verbatim>\<open>entered\<close> rows,
  no sequence of fresh and retry claims, raising or not, on whatever ids and at
  whatever instants, takes a count above \<open>MAX_EXIT_ATTEMPTS\<close>.
\<close>

theorem attempts_bounded:
  assumes "\<forall>r \<in> set rows. coalesce0 (exit_attempt_count r) \<le> MAX_EXIT_ATTEMPTS
              \<and> (status r = ''entered'' \<longrightarrow> coalesce0 (exit_attempt_count r) < MAX_EXIT_ATTEMPTS)"
  shows "\<forall>r \<in> set (run_claims calls rows). coalesce0 (exit_attempt_count r) \<le> MAX_EXIT_ATTEMPTS"
proof -
  have "\<forall>r \<in> set (foldl run_claim rows calls).
          coalesce0 (exit_attempt_count r) \<le> MAX_EXIT_ATTEMPTS
          \<and> (status r = ''entered'' \<longrightarrow> coalesce0 (exit_attempt_count r) < MAX_EXIT_ATTEMPTS)"
    using assms
  proof (induction calls arbitrary: rows)
    case Nil
    then show ?case by simp
  next
    case (Cons c calls)
    from run_claim_attempts [OF Cons.prems, of c] Cons.IH [of "run_claim rows c"]
    show ?case by simp
  qed
  then show ?thesis by (simp add: run_claims_def)
qed

text \<open>
  A fresh position claimed at instant 0 and retried every ten seconds: the sixth and
  seventh retries are refused and the count stays at 5.
\<close>

theorem attempts_bounded_witness:
  "map exit_attempt_count
     (run_claims [Fresh False 0 7 ''max_loss'', Retry False 10000000 7 ''RETRY'',
        Retry False 20000000 7 ''RETRY'', Retry False 30000000 7 ''RETRY'',
        Retry False 40000000 7 ''RETRY'', Retry False 50000000 7 ''RETRY'',
        Retry False 60000000 7 ''RETRY''] [entered_position 7]) = [Some 5]
   \<and> MAX_EXIT_ATTEMPTS = 5"
proof -
  have h: "\<forall>r \<in> set [entered_position 7]. coalesce0 (exit_attempt_count r) \<le> MAX_EXIT_ATTEMPTS
              \<and> (status r = ''entered'' \<longrightarrow> coalesce0 (exit_attempt_count r) < MAX_EXIT_ATTEMPTS)"
    by (simp add: entered_position_def MAX_EXIT_ATTEMPTS_def)
  note b = attempts_bounded [OF h]
  have "map exit_attempt_count
     (run_claims [Fresh False 0 7 ''max_loss'', Retry False 10000000 7 ''RETRY'',
        Retry False 20000000 7 ''RETRY'', Retry False 30000000 7 ''RETRY'',
        Retry False 40000000 7 ''RETRY'', Retry False 50000000 7 ''RETRY'',
        Retry False 60000000 7 ''RETRY''] [entered_position 7]) = [Some 5]"
    by (simp add: run_claims_def atomic_claim_exit_def atomic_claim_exit_retry_def
        sa_update_def claim_where_def claim_values_def retry_where_def retry_values_def
        entered_position_def MAX_EXIT_ATTEMPTS_def timedelta_seconds_def
        EXIT_RETRY_DELAY_SECONDS_def)
  then show ?thesis using b by (simp add: MAX_EXIT_ATTEMPTS_def)
qed

text \<open>
  The claim as written fails at a position that is \<^verbatim>\<open>entered\<close> with five attempts
  on record: its count is within the bound, and one fresh claim takes it to 6.
\<close>

theorem attempts_exceeded:
  "coalesce0 (exit_attempt_count ((entered_position 7)\<lparr>exit_attempt_count := Some 5\<rparr>))
      \<le> MAX_EXIT_ATTEMPTS
   \<and> map exit_attempt_count
       (run_claims [Fresh False 0 7 ''max_loss'']
          [(entered_position 7)\<lparr>exit_attempt_count := Some 5\<rparr>]) = [Some 6]
   \<and> \<not> (6 \<le> MAX_EXIT_ATTEMPTS)"
  by (simp add: run_claims_def atomic_claim_exit_def sa_update_def claim_where_def
      claim_values_def entered_position_def MAX_EXIT_ATTEMPTS_def)


section \<open>Broker Verification when a query fails\<close>

text \<open>
  C5. The claim fails on the code. With the position book showing the position
  open, an order book query that answers with an error envelope (no exception) is
  skipped, and so is such a trade book query: the function runs on to its last
  statement and reports that an exit may be placed. Only a raised exception reaches
  the \<^verbatim>\<open>except\<close> branch, whose comment says not to allow placing when the state
  cannot be verified.
\<close>

theorem verify_fails_open:
  "can_place_exit (verify_exit_order_at_broker orderbook_down (pending_position 7))
   \<and> can_place_exit (verify_exit_order_at_broker tradebook_down (pending_position 7))
   \<and> \<not> can_place_exit (verify_exit_order_at_broker
          (healthy_client\<lparr>orderbook := Raises ''timeout''\<rparr>) (pending_position 7))"
  by (simp add: verify_exit_order_at_broker_def orderbook_down_def tradebook_down_def
      healthy_client_def short_position_book_def pending_position_def entered_position_def
      verification_error_def)

lemma verify_positionbook_not_success:
  assumes "positionbook cl = Response st dat" "st \<noteq> Some ''success''"
  shows "verify_exit_order_at_broker cl e =
     \<lparr>has_exit_order = True, order_status = Some ''complete'', order_id = None,
      position_quantity = 0, can_place_exit = False,
      message = ''Position already closed at broker (quantity=0)''\<rparr>"
  using assms by (simp add: verify_exit_order_at_broker_def)

text \<open>
  C10. When the position book query returns an envelope whose status is not
  \<^verbatim>\<open>success\<close>, \<open>position_quantity\<close> stays 0 and the verification reports a completed
  exit that may not be placed again. The loop body of the Coordinator, on a claimed
  position of an active account with more than one attempt, then commits
  \<open>mark_exit_confirmed\<close> with status \<^verbatim>\<open>complete\<close> and no order id, counts a success
  and submits no order; the position is \<^verbatim>\<open>exited\<close>.
\<close>

theorem positionbook_failure_confirms_exit:
  assumes "positionbook (client_for env i) = Response st dat" "st \<noteq> Some ''success''"
    and "query_get (executions w) i = Some e" "account e = Some acct" "is_active acct"
    and "coalesce0 (exit_attempt_count e) > 1"
  shows "verify_exit_order_at_broker (client_for env i) e =
     \<lparr>has_exit_order = True, order_status = Some ''complete'', order_id = None,
      position_quantity = 0, can_place_exit = False,
      message = ''Position already closed at broker (quantity=0)''\<rparr>
   \<and> process_claimed env strat i (w, n) =
       (w\<lparr>executions := commit_execution
             (mark_exit_confirmed (mark_utcnow env i) e ''complete'' None) (executions w)\<rparr>,
        n + 1)
   \<and> status (mark_exit_confirmed (mark_utcnow env i) e ''complete'' None) = ''exited''"
proof -
  note v = verify_positionbook_not_success [OF assms(1,2), of e]
  have "process_claimed env strat i (w, n) =
       (w\<lparr>executions := commit_execution
             (mark_exit_confirmed (mark_utcnow env i) e ''complete'' None) (executions w)\<rparr>,
        n + 1)"
    using assms(3-6) by (simp add: process_claimed_def v)
  moreover have "status (mark_exit_confirmed (mark_utcnow env i) e ''complete'' None) = ''exited''"
    by (simp add: mark_exit_confirmed_def Let_def)
  ultimately show ?thesis using v by simp
qed

theorem positionbook_failure_confirms_exit_witness:
  "verify_exit_order_at_broker positionbook_down (retried_position 7) =
     \<lparr>has_exit_order = True, order_status = Some ''complete'', order_id = None,
      position_quantity = 0, can_place_exit = False,
      message = ''Position already closed at broker (quantity=0)''\<rparr>
   \<and> process_claimed (quiet_env positionbook_down) breakout_strategy 7
        (\<lparr>strategies = [breakout_strategy], executions = [retried_position 7],
          orders_placed = [], poller_queue = []\<rparr>, 0) =
       (\<lparr>strategies = [breakout_strategy],
         executions = [(retried_position 7)\<lparr>status := ''exited'',
            broker_order_status := Some ''complete'', exit_time := Some 21000000,
            exit_broker_verified := True\<rparr>],
         orders_placed = [], poller_queue = []\<rparr>, 1)"
proof -
  have c: "client_for (quiet_env positionbook_down) 7 = positionbook_down"
    "mark_utcnow (quiet_env positionbook_down) 7 = 21000000"
    by (simp_all add: quiet_env_def)
  have h1: "positionbook (client_for (quiet_env positionbook_down) 7) = Response (Some ''error'') []"
    by (simp add: quiet_env_def positionbook_down_def)
  have h2: "Some ''error'' \<noteq> Some ''success''" by simp
  have h3: "query_get (executions \<lparr>strategies = [breakout_strategy], executions = [retried_position 7],
          orders_placed = [], poller_queue = []\<rparr>) 7 = Some (retried_position 7)"
    by (simp add: query_get_def retried_position_def pending_position_def entered_position_def)
  have h4: "account (retried_position 7) = Some \<lparr>aid = 1, account_name = ''primary'', is_active = True\<rparr>"
    by (simp add: retried_position_def pending_position_def entered_position_def)
  have h5: "is_active \<lparr>aid = 1, account_name = ''primary'', is_active = True\<rparr>" by simp
  have h6: "coalesce0 (exit_attempt_count (retried_position 7)) > 1"
    by (simp add: retried_position_def)
  have m: "mark_exit_confirmed 21000000 (retried_position 7) ''complete'' None =
      (retried_position 7)\<lparr>status := ''exited'',
            broker_order_status := Some ''complete'', exit_time := Some 21000000,
            exit_broker_verified := True\<rparr>"
    by (simp add: mark_exit_confirmed_def Let_def retried_position_def pending_position_def
        entered_position_def)
  show ?thesis
    using positionbook_failure_confirms_exit [OF h1 h2 h3 h4 h5 h6, of breakout_strategy 0]
    by (simp add: c m commit_execution_def)
qed

section \<open>The direction the signal waits for\<close>

text \<open>
  C4. The claim fails on the code. \<open>get_final_bands_nb\<close> writes 1 when the close
  is above the previous upper band and -1 when it is below the previous lower band
  (\<open>calculate_supertrend\<close>: 1 for bullish, -1 for bearish), while
  \<open>check_supertrend_exit\<close> tests for -1 in breakout mode and for 1 in breakdown mode,
  following the comment's Pine Script convention. On the twelve bars of
  \<open>bullish_cross\<close> the last close goes above the upper band and the direction turns
  to 1: a breakout strategy is not triggered and a breakdown strategy is. On
  \<open>still_bearish\<close> the direction stays -1 and the breakout strategy is triggered.
\<close>

theorem breakout_fires_on_bearish:
  "dir (calculate_supertrend bullish_cross) = [1, 1, 1, 1, 1, 1, 1, 1, - 1, - 1, - 1, 1]
   \<and> supertrend_signal breakout_strategy [entered_position 7] (Some bullish_cross) = None
   \<and> supertrend_signal breakdown_strategy [entered_position 7] (Some bullish_cross)
       = Some ''supertrend_breakdown''
   \<and> dir (calculate_supertrend still_bearish) = [1, 1, 1, 1, 1, 1, 1, 1, - 1, - 1, - 1, - 1]
   \<and> supertrend_signal breakout_strategy [entered_position 7] (Some still_bearish)
       = Some ''supertrend_breakout''
   \<and> supertrend_signal breakdown_strategy [entered_position 7] (Some still_bearish) = None"
proof -
  have d1: "dir (calculate_supertrend bullish_cross) = [1, 1, 1, 1, 1, 1, 1, 1, - 1, - 1, - 1, 1]"
    by (simp add: calculate_supertrend_def get_final_bands_nb_def band_step_def
        bullish_cross_def flat_upper_def flat_lower_def Let_def)
  have d2: "dir (calculate_supertrend still_bearish) = [1, 1, 1, 1, 1, 1, 1, 1, - 1, - 1, - 1, - 1]"
    by (simp add: calculate_supertrend_def get_final_bands_nb_def band_step_def
        still_bearish_def flat_upper_def flat_lower_def Let_def)
  have l1: "length (sd_close bullish_cross) = 12" by (simp add: bullish_cross_def)
  have l2: "length (sd_close still_bearish) = 12" by (simp add: still_bearish_def)
  have s: "supertrend_signal breakout_strategy [entered_position 7] (Some bullish_cross) = None"
    "supertrend_signal breakdown_strategy [entered_position 7] (Some bullish_cross)
       = Some ''supertrend_breakdown''"
    "supertrend_signal breakout_strategy [entered_position 7] (Some still_bearish)
       = Some ''supertrend_breakout''"
    "supertrend_signal breakdown_strategy [entered_position 7] (Some still_bearish) = None"
    by (simp_all add: supertrend_signal_def d1 d2 l1 l2 breakout_strategy_def
        breakdown_strategy_def entered_position_def)
  from d1 d2 s show ?thesis by simp
qed

section \<open>A retry episode and the latch\<close>

lemma latched_trigger_returns:
  assumes "find (\<lambda>s. sid s = sid strat0) (strategies w) = Some s" "supertrend_exit_triggered s"
  shows "trigger_sequential_exit env w strat0 reason = w"
  using assms by (simp add: trigger_sequential_exit_def)

text \<open>
  C3. The claim fails on the code. The retry sweep looks only at strategies whose
  latch is set, and \<open>trigger_sequential_exit\<close> returns at once when the latch is
  set: for the strategy with one position that is ready for a retry (the retry claim
  on it would succeed), the call with the RETRY reason and the whole sweep leave the
  world as it was, whatever the broker and the clock: no claim, no order.
\<close>

theorem retry_episode_stopped_by_latch:
  "get_pending_exit_retries 10000000 [pending_position 7] 1 = [pending_position 7]
   \<and> fst (atomic_claim_exit_retry False 10000000 [pending_position 7] 7
            ''Supertrend RETRY - 1 positions pending'')
   \<and> trigger_sequential_exit env
        \<lparr>strategies = [breakout_strategy\<lparr>supertrend_exit_triggered := True\<rparr>],
         executions = [pending_position 7], orders_placed = [], poller_queue = []\<rparr>
        (breakout_strategy\<lparr>supertrend_exit_triggered := True\<rparr>)
        ''Supertrend RETRY - 1 positions pending''
      = \<lparr>strategies = [breakout_strategy\<lparr>supertrend_exit_triggered := True\<rparr>],
         executions = [pending_position 7], orders_placed = [], poller_queue = []\<rparr>
   \<and> retry_sweep env 10000000 {}
        \<lparr>strategies = [breakout_strategy\<lparr>supertrend_exit_triggered := True\<rparr>],
         executions = [pending_position 7], orders_placed = [], poller_queue = []\<rparr>
      = \<lparr>strategies = [breakout_strategy\<lparr>supertrend_exit_triggered := True\<rparr>],
         executions = [pending_position 7], orders_placed = [], poller_queue = []\<rparr>"
proof -
  let ?s = "breakout_strategy\<lparr>supertrend_exit_triggered := True\<rparr>"
  let ?w = "\<lparr>strategies = [?s], executions = [pending_position 7],
             orders_placed = [], poller_queue = []\<rparr>"
  have p: "get_pending_exit_retries 10000000 [pending_position 7] 1 = [pending_position 7]"
    by (simp add: get_pending_exit_retries_def pending_position_def entered_position_def
        MAX_EXIT_ATTEMPTS_def)
  have c: "fst (atomic_claim_exit_retry False 10000000 [pending_position 7] 7
            ''Supertrend RETRY - 1 positions pending'')"
    by (simp add: atomic_claim_exit_retry_def sa_update_def retry_where_def
        pending_position_def entered_position_def MAX_EXIT_ATTEMPTS_def)
  have f: "find (\<lambda>s. sid s = sid ?s) (strategies ?w) = Some ?s" by simp
  have t: "trigger_sequential_exit env ?w ?s r = ?w" for r
    by (rule latched_trigger_returns [OF f]) simp
  have a: "sid ?s = 1" "supertrend_exit_enabled ?s" "strategy_is_active ?s"
    by (simp_all add: breakout_strategy_def)
  have "retry_sweep env 10000000 {} ?w = ?w"
    by (simp add: retry_sweep_def retry_strategy_def Let_def a p t)
  with p c t show ?thesis by simp
qed


section \<open>The order of the exits within one invocation\<close>

lemma query_get_map:
  assumes "\<And>r. eid (f r) = eid r"
  shows "query_get (map f rows) i = map_option f (query_get rows i)"
  using assms by (induction rows) (auto simp: query_get_def)

lemma query_get_eid: "query_get rows i = Some e \<Longrightarrow> eid e = i"
  by (induction rows) (auto simp: query_get_def split: if_splits)

lemma query_get_member: "query_get rows i = Some e \<Longrightarrow> e \<in> set rows"
  by (induction rows) (auto simp: query_get_def split: if_splits)

lemma query_get_distinct:
  "distinct (map eid rows) \<Longrightarrow> x \<in> set rows \<Longrightarrow> query_get rows (eid x) = Some x"
  by (induction rows) (auto simp: query_get_def)

lemma exit_action_of_leg: "leg e = leg e' \<Longrightarrow> exit_action_of e = exit_action_of e'"
  by (simp add: exit_action_of_def)

lemma claim_legs:
  "map_option leg (query_get (snd (atomic_claim_exit f now rows i reason)) j)
     = map_option leg (query_get rows j)"
proof -
  have "query_get (map (\<lambda>r. if claim_where i r then claim_values now reason r else r) rows) j
      = map_option (\<lambda>r. if claim_where i r then claim_values now reason r else r) (query_get rows j)"
    by (rule query_get_map) (simp add: claim_values_def)
  then show ?thesis
    by (cases "query_get rows j") (auto simp: atomic_claim_exit_rows claim_values_def)
qed

lemma retry_legs:
  "map_option leg (query_get (snd (atomic_claim_exit_retry f now rows i reason)) j)
     = map_option leg (query_get rows j)"
proof -
  have "query_get (map (\<lambda>r. if retry_where now i r then retry_values now reason r else r) rows) j
      = map_option (\<lambda>r. if retry_where now i r then retry_values now reason r else r) (query_get rows j)"
    by (rule query_get_map) (simp add: retry_values_def)
  then show ?thesis
    by (cases "query_get rows j") (auto simp: atomic_claim_exit_retry_rows retry_values_def)
qed

lemma commit_legs:
  assumes "query_get rows (eid e') = Some e1" "leg e' = leg e1"
  shows "map_option leg (query_get (commit_execution e' rows) j) = map_option leg (query_get rows j)"
proof -
  have q: "query_get (commit_execution e' rows) j
      = map_option (\<lambda>r. if eid r = eid e' then e' else r) (query_get rows j)"
    unfolding commit_execution_def by (rule query_get_map) simp
  show ?thesis
  proof (cases "query_get rows j")
    case None
    then show ?thesis using q by simp
  next
    case (Some r)
    show ?thesis
    proof (cases "eid r = eid e'")
      case True
      with Some query_get_eid [OF Some] have "query_get rows (eid e') = Some r" by simp
      with assms have "r = e1" by simp
      with Some q True assms show ?thesis by simp
    next
      case False
      with Some q show ?thesis by simp
    qed
  qed
qed


lemma place_exit_step:
  assumes "query_get (executions w) (eid e) = Some e"
  shows "(\<forall>j. map_option leg (query_get (executions (fst (place_exit env strat acct cl e (w, n)))) j)
             = map_option leg (query_get (executions w) j))
       \<and> (\<exists>rq. orders_placed (fst (place_exit env strat acct cl e (w, n))) = orders_placed w @ [rq]
             \<and> o_action rq = exit_action_of e)"
proof -
  have s: "map_option leg (query_get (commit_execution
              (mark_exit_success t e oid) (executions w)) j)
           = map_option leg (query_get (executions w) j)" for t oid j
    by (rule commit_legs [where ?e1.0 = e]) (simp_all add: mark_exit_success_def assms)
  have f: "map_option leg (query_get (commit_execution
              (mark_exit_failed t e msg b) (executions w)) j)
           = map_option leg (query_get (executions w) j)" for t msg b j
    by (rule commit_legs [where ?e1.0 = e]) (simp_all add: mark_exit_failed_def assms)
  show ?thesis
    using assms by (simp add: place_exit_def Let_def s f)
qed

lemma process_claimed_step:
  "(\<forall>j. map_option leg (query_get (executions (fst (process_claimed env strat i (w, n)))) j)
             = map_option leg (query_get (executions w) j))
   \<and> (orders_placed (fst (process_claimed env strat i (w, n))) = orders_placed w
       \<or> (\<exists>e rq. query_get (executions w) i = Some e
             \<and> orders_placed (fst (process_claimed env strat i (w, n))) = orders_placed w @ [rq]
             \<and> o_action rq = exit_action_of e))"
proof (cases "query_get (executions w) i")
  case None
  then show ?thesis by (simp add: process_claimed_def)
next
  case (Some e)
  have i: "eid e = i" by (rule query_get_eid [OF Some])
  have q: "query_get (executions w) (eid e) = Some e" using Some i by simp
  note p = place_exit_step [OF q, of env strat _ "client_for env i" n]
  have c: "map_option leg (query_get (commit_execution
              (mark_exit_confirmed t e st oid) (executions w)) j)
           = map_option leg (query_get (executions w) j)" for t st oid j
    by (rule commit_legs [where ?e1.0 = e]) (simp_all add: mark_exit_confirmed_def Let_def q)
  have d: "map_option leg (query_get (commit_execution
              (e\<lparr>status := st, exit_reason := r, exit_time := t\<rparr>) (executions w)) j)
           = map_option leg (query_get (executions w) j)" for st r t j
    by (rule commit_legs [where ?e1.0 = e]) (simp_all add: q)
  show ?thesis
  proof (cases "account e")
    case None
    then show ?thesis using Some by (simp add: process_claimed_def)
  next
    case (Some acct)
    show ?thesis
      using p [of acct] \<open>query_get (executions w) i = Some e\<close> Some
      by (auto simp: process_claimed_def Let_def c d)
  qed
qed

lemma process_execution_step:
  "(\<forall>j. map_option leg (query_get (executions (fst (process_execution env strat r reason (w, n) i))) j)
             = map_option leg (query_get (executions w) j))
   \<and> (orders_placed (fst (process_execution env strat r reason (w, n) i)) = orders_placed w
       \<or> (\<exists>e rq. query_get (executions w) i = Some e
             \<and> orders_placed (fst (process_execution env strat r reason (w, n) i)) = orders_placed w @ [rq]
             \<and> o_action rq = exit_action_of e))"
proof -
  define rows' where "rows' =
    snd (if r then atomic_claim_exit_retry (claim_raises env i) (claim_utcnow env i) (executions w) i reason
         else atomic_claim_exit (claim_raises env i) (claim_utcnow env i) (executions w) i reason)"
  have l: "map_option leg (query_get rows' j) = map_option leg (query_get (executions w) j)" for j
    by (simp add: rows'_def claim_legs retry_legs)
  define w1 where "w1 = w\<lparr>executions := rows'\<rparr>"
  have w1: "executions w1 = rows'" "orders_placed w1 = orders_placed w"
    by (simp_all add: w1_def)
  have cases: "process_execution env strat r reason (w, n) i = (w1, n)
      \<or> process_execution env strat r reason (w, n) i = process_claimed env strat i (w1, n)"
    by (simp add: process_execution_def Let_def w1_def rows'_def)
  note pc = process_claimed_step [of env strat i w1 n]
  from cases show ?thesis
  proof
    assume "process_execution env strat r reason (w, n) i = (w1, n)"
    then show ?thesis using l w1 by simp
  next
    assume a: "process_execution env strat r reason (w, n) i = process_claimed env strat i (w1, n)"
    have 1: "\<forall>j. map_option leg (query_get (executions (fst (process_execution env strat r reason (w, n) i))) j)
             = map_option leg (query_get (executions w) j)"
      using pc a l w1 by simp
    from pc have "orders_placed (fst (process_claimed env strat i (w1, n))) = orders_placed w1
       \<or> (\<exists>e rq. query_get (executions w1) i = Some e
             \<and> orders_placed (fst (process_claimed env strat i (w1, n))) = orders_placed w1 @ [rq]
             \<and> o_action rq = exit_action_of e)" by blast
    then have 2: "orders_placed (fst (process_execution env strat r reason (w, n) i)) = orders_placed w
       \<or> (\<exists>e rq. query_get (executions w) i = Some e
             \<and> orders_placed (fst (process_execution env strat r reason (w, n) i)) = orders_placed w @ [rq]
             \<and> o_action rq = exit_action_of e)"
    proof
      assume "orders_placed (fst (process_claimed env strat i (w1, n))) = orders_placed w1"
      then show ?thesis using a w1 by simp
    next
      assume "\<exists>e rq. query_get (executions w1) i = Some e
             \<and> orders_placed (fst (process_claimed env strat i (w1, n))) = orders_placed w1 @ [rq]
             \<and> o_action rq = exit_action_of e"
      then obtain e1 rq where e1: "query_get rows' i = Some e1"
        and o: "orders_placed (fst (process_claimed env strat i (w1, n))) = orders_placed w @ [rq]"
        and x: "o_action rq = exit_action_of e1"
        using w1 by auto
      from l [of i] e1 obtain e where e: "query_get (executions w) i = Some e" "leg e = leg e1"
        by (cases "query_get (executions w) i") auto
      from e x have "o_action rq = exit_action_of e"
        using exit_action_of_leg [of e e1] by simp
      with e o a show ?thesis by auto
    qed
    from 1 2 show ?thesis by blast
  qed
qed


lemma process_all_actions:
  assumes "\<forall>i \<in> set ids. \<forall>e. query_get (executions w) i = Some e \<longrightarrow> exit_action_of e = a"
  shows "(\<forall>j. map_option leg (query_get (executions (fst (foldl (process_execution env strat r reason) (w, n) ids))) j)
             = map_option leg (query_get (executions w) j))
       \<and> (\<exists>os. orders_placed (fst (foldl (process_execution env strat r reason) (w, n) ids))
                  = orders_placed w @ os
             \<and> (\<forall>rq \<in> set os. o_action rq = a))"
  using assms
proof (induction ids arbitrary: w n)
  case Nil
  then show ?case by simp
next
  case (Cons i ids)
  obtain w1 n1 where s: "process_execution env strat r reason (w, n) i = (w1, n1)"
    by (cases "process_execution env strat r reason (w, n) i")
  note st = process_execution_step [of env strat r reason w n i, unfolded s fst_conv]
  from st have l: "\<And>j. map_option leg (query_get (executions w1) j)
      = map_option leg (query_get (executions w) j)" by blast
  have h: "\<forall>j \<in> set ids. \<forall>e. query_get (executions w1) j = Some e \<longrightarrow> exit_action_of e = a"
  proof (intro ballI allI impI)
    fix j e1 assume j: "j \<in> set ids" and e1: "query_get (executions w1) j = Some e1"
    from l [of j] e1 obtain e where e: "query_get (executions w) j = Some e" "leg e = leg e1"
      by (cases "query_get (executions w) j") auto
    from Cons.prems j e have "exit_action_of e = a" by simp
    with e show "exit_action_of e1 = a" using exit_action_of_leg [of e e1] by simp
  qed
  note ih = Cons.IH [OF h, of n1]
  from ih obtain os where os: "orders_placed (fst (foldl (process_execution env strat r reason) (w1, n1) ids))
      = orders_placed w1 @ os" "\<forall>rq \<in> set os. o_action rq = a" by blast
  from st have "orders_placed w1 = orders_placed w
       \<or> (\<exists>e rq. query_get (executions w) i = Some e
             \<and> orders_placed w1 = orders_placed w @ [rq] \<and> o_action rq = exit_action_of e)"
    by blast
  then have "\<exists>os1. orders_placed w1 = orders_placed w @ os1 \<and> (\<forall>rq \<in> set os1. o_action rq = a)"
  proof
    assume "orders_placed w1 = orders_placed w"
    then show ?thesis by simp
  next
    assume "\<exists>e rq. query_get (executions w) i = Some e
             \<and> orders_placed w1 = orders_placed w @ [rq] \<and> o_action rq = exit_action_of e"
    then obtain e rq where "query_get (executions w) i = Some e"
      "orders_placed w1 = orders_placed w @ [rq]" "o_action rq = exit_action_of e" by blast
    moreover from this Cons.prems have "exit_action_of e = a" by simp
    ultimately show ?thesis by simp
  qed
  then obtain os1 where os1: "orders_placed w1 = orders_placed w @ os1"
    "\<forall>rq \<in> set os1. o_action rq = a" by blast
  have 1: "\<forall>j. map_option leg (query_get (executions (fst (foldl (process_execution env strat r reason) (w, n) (i # ids)))) j)
             = map_option leg (query_get (executions w) j)"
    using ih l by (simp add: s)
  have 2: "orders_placed (fst (foldl (process_execution env strat r reason) (w, n) (i # ids)))
      = orders_placed w @ (os1 @ os)"
    using os os1 by (simp add: s)
  have 3: "\<forall>rq \<in> set (os1 @ os). o_action rq = a"
    using os os1 by auto
  from 1 2 3 show ?case by blast
qed

lemma sell_entry_closes_with_buy:
  "leg e = Some l \<Longrightarrow> action l = ''SELL'' \<Longrightarrow> exit_action_of e = ''BUY''"
  by (simp add: exit_action_of_def str_upper_def upper_char_def)

lemma buy_entry_closes_with_sell:
  "leg e = Some l \<Longrightarrow> action l = ''BUY'' \<Longrightarrow> exit_action_of e = ''SELL''"
  by (simp add: exit_action_of_def str_upper_def upper_char_def)

lemma no_leg_closes_with_sell:
  "leg e = None \<Longrightarrow> exit_action_of e = ''SELL''"
  by (simp add: exit_action_of_def)

lemma open_executions_subset: "set (open_executions_of strat r rows) \<subseteq> set rows"
  by (auto simp: open_executions_of_def Let_def)

lemma all_same_replicate: "\<forall>x \<in> set xs. f x = a \<Longrightarrow> map f xs = replicate (length xs) a"
  by (induction xs) auto

lemma orders_buy_then_sell:
  assumes d: "distinct (map eid (executions w))"
  shows "\<exists>os m n. orders_placed (trigger_sequential_exit env w strat0 reason) = orders_placed w @ os
           \<and> map o_action os = replicate m ''BUY'' @ replicate n ''SELL''"
proof -
  have triv: "\<exists>os m n. orders_placed w = orders_placed w @ os
           \<and> map o_action os = replicate m ''BUY'' @ replicate n ''SELL''"
    by (rule exI [of _ "[]"]) simp
  show ?thesis
  proof (cases "find (\<lambda>s. sid s = sid strat0) (strategies w)")
    case None
    then show ?thesis using triv by (simp add: trigger_sequential_exit_def)
  next
    case (Some fetched)
    show ?thesis
    proof (cases "supertrend_exit_triggered fetched")
      case True
      then show ?thesis using triv Some by (simp add: trigger_sequential_exit_def)
    next
      case False
      define strat where "strat = fetched\<lparr>supertrend_exit_triggered := True,
                          supertrend_exit_reason := Some reason,
                          supertrend_exit_triggered_at := Some (get_ist_now env)\<rparr>"
      define w1 where "w1 = w\<lparr>strategies :=
                        map (\<lambda>s. if sid s = sid strat then strat else s) (strategies w)\<rparr>"
      define r where "r = contains ''RETRY'' (str_upper reason)"
      define cands where "cands = open_executions_of strat r (executions w1)"
      have w1: "executions w1 = executions w" "orders_placed w1 = orders_placed w"
        by (simp_all add: w1_def)
      show ?thesis
      proof (cases "cands = []")
        case True
        then have "trigger_sequential_exit env w strat0 reason = w1"
          using Some False
          unfolding trigger_sequential_exit_def cands_def w1_def r_def strat_def
          by (simp add: Let_def)
        then show ?thesis using triv w1 by simp
      next
        case ne: False
        define S where "S = filter (\<lambda>ex. case leg ex of Some l \<Rightarrow> action l = ''SELL'' | None \<Rightarrow> False) cands"
        define B where "B = filter (\<lambda>ex. case leg ex of Some l \<Rightarrow> action l = ''BUY'' | None \<Rightarrow> False) cands"
        define U where "U = filter (\<lambda>ex. leg ex = None) cands"
        let ?f = "process_execution env strat r reason"
        have t0: "trigger_sequential_exit env w strat0 reason
            = fst (foldl ?f (w1, 0) (map eid (order_executions cands)))"
          using Some False ne
          unfolding trigger_sequential_exit_def cands_def w1_def r_def strat_def
          by (simp add: Let_def)
        have ids: "map eid (order_executions cands) = map eid S @ map eid (B @ U)"
          by (simp add: order_executions_def Let_def S_def B_def U_def)
        have t: "trigger_sequential_exit env w strat0 reason
            = fst (foldl ?f (foldl ?f (w1, 0) (map eid S)) (map eid (B @ U)))"
          by (simp only: t0 ids foldl_append)
        have sub: "set cands \<subseteq> set (executions w)"
          using open_executions_subset [of strat r "executions w1"] w1 by (simp add: cands_def)
        have look: "query_get (executions w) (eid x) = Some x" if "x \<in> set cands" for x
          using query_get_distinct [OF d] that sub by blast
        have hS: "\<forall>i \<in> set (map eid S). \<forall>e. query_get (executions w1) i = Some e
            \<longrightarrow> exit_action_of e = ''BUY''"
        proof (intro ballI allI impI)
          fix i e assume "i \<in> set (map eid S)" and e: "query_get (executions w1) i = Some e"
          then obtain x where x: "x \<in> set S" "i = eid x" by auto
          then have "x \<in> set cands" by (simp add: S_def)
          with look x e w1 have "e = x" by simp
          moreover from x obtain l where "leg x = Some l" "action l = ''SELL''"
            by (auto simp: S_def split: option.splits)
          ultimately show "exit_action_of e = ''BUY''"
            using sell_entry_closes_with_buy by simp
        qed
        obtain w2 n2 where w2: "foldl ?f (w1, 0) (map eid S) = (w2, n2)"
          by (cases "foldl ?f (w1, 0) (map eid S)")
        note p1 = process_all_actions [OF hS, of env strat r reason 0, unfolded w2 fst_conv]
        from p1 obtain os1 where os1: "orders_placed w2 = orders_placed w @ os1"
          "\<forall>rq \<in> set os1. o_action rq = ''BUY''" using w1 by auto
        from p1 have l2: "\<And>j. map_option leg (query_get (executions w2) j)
            = map_option leg (query_get (executions w) j)" using w1 by simp
        have hBU: "\<forall>i \<in> set (map eid (B @ U)). \<forall>e. query_get (executions w2) i = Some e
            \<longrightarrow> exit_action_of e = ''SELL''"
        proof (intro ballI allI impI)
          fix i e assume "i \<in> set (map eid (B @ U))" and e: "query_get (executions w2) i = Some e"
          then obtain x where x: "x \<in> set B \<or> x \<in> set U" "i = eid x" by auto
          then have "x \<in> set cands" by (auto simp: B_def U_def)
          with look x have "query_get (executions w) i = Some x" by simp
          with l2 [of i] e have lg: "leg e = leg x" by simp
          from x(1) have "exit_action_of x = ''SELL''"
          proof
            assume "x \<in> set B"
            then obtain l where "leg x = Some l" "action l = ''BUY''"
              by (auto simp: B_def split: option.splits)
            then show ?thesis by (rule buy_entry_closes_with_sell)
          next
            assume "x \<in> set U"
            then have "leg x = None" by (simp add: U_def)
            then show ?thesis by (rule no_leg_closes_with_sell)
          qed
          with lg show "exit_action_of e = ''SELL''"
            using exit_action_of_leg [of e x] by simp
        qed
        note p2 = process_all_actions [OF hBU, of env strat r reason n2]
        from p2 obtain os2 where os2: "orders_placed (fst (foldl ?f (w2, n2) (map eid (B @ U))))
            = orders_placed w2 @ os2" "\<forall>rq \<in> set os2. o_action rq = ''SELL''" by blast
        have o: "orders_placed (trigger_sequential_exit env w strat0 reason)
            = orders_placed w @ (os1 @ os2)"
          using t w2 os1 os2 by simp
        have m: "map o_action (os1 @ os2)
            = replicate (length os1) ''BUY'' @ replicate (length os2) ''SELL''"
          using all_same_replicate [OF os1(2)] all_same_replicate [OF os2(2)] by simp
        from o m show ?thesis by blast
      qed
    qed
  qed
qed



lemma three_legs_orders:
  "map eid (order_executions (open_executions_of breakout_strategy False (executions three_legs)))
     = [2, 3, 1]
   \<and> map (\<lambda>rq. (o_symbol rq, o_action rq))
       (orders_placed (trigger_sequential_exit (quiet_env healthy_client) three_legs
          breakout_strategy ''supertrend_breakout''))
     = [(Some ''NIFTY24000CE'', ''BUY''), (Some ''NIFTY24000CE'', ''BUY''),
        (Some ''NIFTY24500CE'', ''SELL'')]"
  by (simp add: trigger_sequential_exit_def three_legs_def breakout_strategy_def
      open_executions_of_def order_executions_def buy_position_def entered_position_def
      process_execution_def process_claimed_def place_exit_def quiet_env_def healthy_client_def
      accept_order_def atomic_claim_exit_def sa_update_def claim_where_def claim_values_def
      query_get_def commit_execution_def mark_exit_success_def exit_action_of_def
      str_upper_def upper_char_def Let_def)


lemma constant_sorted: "\<forall>x \<in> set xs. f x = (c::nat) \<Longrightarrow> sorted (map f xs)"
  by (induction xs) auto

lemma order_executions_ranked:
  "sorted (map (\<lambda>ex. case leg ex of None \<Rightarrow> (2::nat)
                        | Some l \<Rightarrow> if action l = ''SELL'' then 0 else 1)
             (order_executions cands))"
proof -
  let ?rk = "\<lambda>ex. case leg ex of None \<Rightarrow> (2::nat)
                        | Some l \<Rightarrow> if action l = ''SELL'' then 0 else 1"
  have s: "sorted (map ?rk (filter (\<lambda>ex. case leg ex of Some l \<Rightarrow> action l = ''SELL''
                                          | None \<Rightarrow> False) cands))"
    by (rule constant_sorted [where c = 0]) (auto split: option.splits)
  have b: "sorted (map ?rk (filter (\<lambda>ex. case leg ex of Some l \<Rightarrow> action l = ''BUY''
                                          | None \<Rightarrow> False) cands))"
    by (rule constant_sorted [where c = 1]) (auto split: option.splits)
  have u: "sorted (map ?rk (filter (\<lambda>ex. leg ex = None) cands))"
    by (rule constant_sorted [where c = 2]) auto
  show ?thesis
    using s b u
    by (auto simp: order_executions_def Let_def sorted_append split: option.splits)
qed

text \<open>
  C8. In the list the Coordinator processes, nothing but a SELL entry stands before a
  SELL entry, and only positions without a leg stand after a position without a
  leg: SELL entries come first, then BUY entries, then unknown legs. The loop
  runs through the ids of that list in order, one position after the other, so,
  the ids being the primary key, the orders one invocation submits are BUY orders
  (closing SELL entries) followed by SELL orders (closing BUY entries and unknown
  legs). With legs BUY, SELL, SELL in the table, the two BUY orders are submitted
  before the SELL order. (A position whose leg has an action other than
  \<^verbatim>\<open>SELL\<close> and \<^verbatim>\<open>BUY\<close> is in none of the three sublists and is not processed.)
\<close>

theorem sell_entries_closed_first:
  "(\<forall>i j. i < j \<and> j < length (order_executions cands) \<longrightarrow>
       ((\<exists>l. leg (order_executions cands ! j) = Some l \<and> action l = ''SELL'')
          \<longrightarrow> (\<exists>l. leg (order_executions cands ! i) = Some l \<and> action l = ''SELL''))
       \<and> (leg (order_executions cands ! i) = None \<longrightarrow> leg (order_executions cands ! j) = None))
   \<and> (distinct (map eid (executions w)) \<longrightarrow>
       (\<exists>os m n. orders_placed (trigger_sequential_exit env w strat reason) = orders_placed w @ os
           \<and> map o_action os = replicate m ''BUY'' @ replicate n ''SELL''))"
proof (intro conjI allI impI)
  fix i j
  assume ij: "i < j \<and> j < length (order_executions cands)"
  let ?rk = "\<lambda>ex. case leg ex of None \<Rightarrow> (2::nat)
                        | Some l \<Rightarrow> if action l = ''SELL'' then 0 else 1"
  let ?xs = "order_executions cands"
  have "map ?rk ?xs ! i \<le> map ?rk ?xs ! j"
    using order_executions_ranked [of cands] ij
    by (intro sorted_nth_mono) simp_all
  then have le: "?rk (?xs ! i) \<le> ?rk (?xs ! j)"
    using ij by simp
  {
    assume "\<exists>l. leg (?xs ! j) = Some l \<and> action l = ''SELL''"
    then have "?rk (?xs ! j) = 0" by auto
    with le have "?rk (?xs ! i) = 0" by simp
    then show "\<exists>l. leg (?xs ! i) = Some l \<and> action l = ''SELL''"
      by (cases "leg (?xs ! i)") (auto split: if_splits)
  }
  {
    assume "leg (?xs ! i) = None"
    then have "?rk (?xs ! i) = 2" by simp
    with le have "2 \<le> ?rk (?xs ! j)" by simp
    then show "leg (?xs ! j) = None"
      by (cases "leg (?xs ! j)") (auto split: if_splits)
  }
next
  assume "distinct (map eid (executions w))"
  then show "\<exists>os m n. orders_placed (trigger_sequential_exit env w strat reason) = orders_placed w @ os
           \<and> map o_action os = replicate m ''BUY'' @ replicate n ''SELL''"
    by (rule orders_buy_then_sell)
qed

theorem sell_entries_closed_first_witness:
  "(\<exists>os m n. orders_placed (trigger_sequential_exit (quiet_env healthy_client) three_legs
                 breakout_strategy ''supertrend_breakout'') = orders_placed three_legs @ os
           \<and> map o_action os = replicate m ''BUY'' @ replicate n ''SELL'')
   \<and> map eid (order_executions (open_executions_of breakout_strategy False (executions three_legs)))
     = [2, 3, 1]
   \<and> map (\<lambda>rq. (o_symbol rq, o_action rq))
       (orders_placed (trigger_sequential_exit (quiet_env healthy_client) three_legs
          breakout_strategy ''supertrend_breakout''))
     = [(Some ''NIFTY24000CE'', ''BUY''), (Some ''NIFTY24000CE'', ''BUY''),
        (Some ''NIFTY24500CE'', ''SELL'')]"
proof -
  have d: "distinct (map eid (executions three_legs))"
    by (simp add: three_legs_def buy_position_def entered_position_def)
  from sell_entries_closed_first [of "executions three_legs" three_legs
      "quiet_env healthy_client" breakout_strategy "''supertrend_breakout''"] d
  have "\<exists>os m n. orders_placed (trigger_sequential_exit (quiet_env healthy_client) three_legs
                 breakout_strategy ''supertrend_breakout'') = orders_placed three_legs @ os
           \<and> map o_action os = replicate m ''BUY'' @ replicate n ''SELL''"
    by blast
  with three_legs_orders show ?thesis by blast
qed


end
